theory Spec2Isabelle
  imports Main "HOL-Library.AList" "HOL-Library.Word"
begin

section \<open>JavaScript values and strings\<close>

text \<open>
  The editor is one Vue component, \<^verbatim>\<open>src/src/App.vue\<close>. Its script is embedded here
  function by function. Exceptions are values of \<open>js_error\<close>; a function that can throw
  returns a sum with the error on the left.
\<close>

datatype js_error =
    TypeError
  | RangeError
  | SyntaxError
  | NetworkError
  | Error_msg string

text \<open>
  Values that arrive as parsed JSON (the body of the \<^verbatim>\<open>/user/groups\<close> response, the
  stored snapshot). An object is the list of its own properties in enumeration order.
  A number of JavaScript is a double; \<open>JNum\<close> holds the integers from \<open>-2^53\<close> to
  \<open>2^53 - 1\<close>, read with \<open>sint\<close>: each is a double, and each is printed as its decimal
  digits. Numbers with a fraction and larger numbers are outside the type.
\<close>

type_synonym safe_integer = "54 word"

datatype jsval =
    JUndefined
  | JNull
  | JBool bool
  | JNum safe_integer
  | JStr string
  | JArr "jsval list"
  | JObj "(string \<times> jsval) list"

fun show_nat :: "nat \<Rightarrow> string" where
  "show_nat n =
     (if n < 10 then [''0123456789'' ! n]
      else show_nat (n div 10) @ [''0123456789'' ! (n mod 10)])"

declare show_nat.simps [simp del]

definition show_int :: "int \<Rightarrow> string" where
  "show_int i = (if i < 0 then CHR ''-'' # show_nat (nat (- i)) else show_nat (nat i))"

fun join :: "string \<Rightarrow> string list \<Rightarrow> string" where
  "join sep [] = []"
| "join sep [x] = x"
| "join sep (x # y # ys) = x @ sep @ join sep (y # ys)"

text \<open>
  \<^verbatim>\<open>`${v}`\<close>: the string a template literal puts in place of a value, or the exception
  of the conversion. An array is converted by \<^verbatim>\<open>Array.prototype.join\<close>, element by
  element. An object is converted by its \<^verbatim>\<open>toString\<close>: the one of
  \<^verbatim>\<open>Object.prototype\<close>, unless the object has a property of that name; a parsed value
  is never a function, so such a property cannot be called, \<^verbatim>\<open>valueOf\<close> does not give
  a primitive value either, and the conversion throws a TypeError.
\<close>

fun toString :: "jsval \<Rightarrow> js_error + string"
  and toString_elements :: "jsval list \<Rightarrow> js_error + string list"
where
  "toString JUndefined = Inr ''undefined''"
| "toString JNull = Inr ''null''"
| "toString (JBool b) = Inr (if b then ''true'' else ''false'')"
| "toString (JNum n) = Inr (show_int (sint n))"
| "toString (JStr s) = Inr s"
| "toString (JArr vs) =
     (case toString_elements vs of Inl e \<Rightarrow> Inl e | Inr ts \<Rightarrow> Inr (join '','' ts))"
| "toString (JObj kvs) =
     (case map_of kvs ''toString'' of
        None \<Rightarrow> Inr ''[object Object]''
      | Some f \<Rightarrow> Inl TypeError)"
| "toString_elements [] = Inr []"
| "toString_elements (v # vs) =
     (case (if v = JUndefined \<or> v = JNull then Inr [] else toString v) of
        Inl e \<Rightarrow> Inl e
      | Inr t \<Rightarrow>
          (case toString_elements vs of Inl e \<Rightarrow> Inl e | Inr ts \<Rightarrow> Inr (t # ts)))"

text \<open>
  A property read that finds nothing gives \<^verbatim>\<open>undefined\<close>: the result of
  \<^verbatim>\<open>urlParams.get\<close> (\<^verbatim>\<open>null\<close> there) and of \<^verbatim>\<open>row['accessionVersion']\<close> is a
  \<open>string option\<close>. A missing and an empty string are both falsy.
\<close>

fun truthy :: "string option \<Rightarrow> bool" where
  "truthy None = False"
| "truthy (Some v) = (v \<noteq> [])"

fun template :: "string option \<Rightarrow> string" where
  "template None = ''undefined''"
| "template (Some v) = v"

text \<open>
  \<^verbatim>\<open>h.toLowerCase()\<close>. The letters A to Z are mapped; every other character is left as
  it is (no character outside ASCII has a lower-case form that is \<^verbatim>\<open>i\<close> or \<^verbatim>\<open>d\<close>,
  which is all the upload header needs from it).
\<close>

definition toLowerCase_char :: "char \<Rightarrow> char" where
  "toLowerCase_char c =
     (case map_of (zip ''ABCDEFGHIJKLMNOPQRSTUVWXYZ'' ''abcdefghijklmnopqrstuvwxyz'') c of
        Some l \<Rightarrow> l
      | None \<Rightarrow> c)"

definition toLowerCase :: "string \<Rightarrow> string" where
  "toLowerCase s = map toLowerCase_char s"

text \<open>
  \<^verbatim>\<open>returnUrl.replace(/\/$/, '')\<close>: the regular expression matches a slash that is
  followed by the end of the input, so the scan from the left replaces the first (and
  only) such slash by the empty string.
\<close>

fun replace_slash_end :: "string \<Rightarrow> string" where
  "replace_slash_end [] = []"
| "replace_slash_end (c # cs) =
     (if c = CHR ''/'' \<and> cs = [] then [] else c # replace_slash_end cs)"

section \<open>Row objects\<close>

text \<open>
  A row record is a JavaScript object with string keys and string values: the list of
  its own properties, in enumeration order. Row objects live in a store and are referred
  to by address (the index in the store), so that copying a row and assigning to a
  property of the copy are different from assigning to the row itself.

  The component reads the rows of the table through Vue's reactive proxies. The get trap
  of a proxy answers the own value of a property for every key but one: for the key
  \<^verbatim>\<open>hasOwnProperty\<close> it answers a function of Vue's. So an object that was copied from
  a proxy can hold that function where the row has a cell. \<open>vue_hasOwnProperty\<close> says
  so: when it is set, the object has a property \<^verbatim>\<open>hasOwnProperty\<close> and its value is
  Vue's function, not the string \<open>props\<close> lists for it. (Columns named after Vue's
  internal flags, \<^verbatim>\<open>__v_isReactive\<close> and the like, are read in ways of their own and
  are not modelled.)
\<close>

type_synonym row = "(string \<times> string) list"
type_synonym addr = nat

record object =
  props :: row
  vue_hasOwnProperty :: bool

type_synonym store = "object list"

text \<open>An object as the parser or \<^verbatim>\<open>JSON.parse\<close> makes it: every property a string.\<close>

definition raw_object :: "row \<Rightarrow> object" where
  "raw_object r = \<lparr>props = r, vue_hasOwnProperty = False\<rparr>"

text \<open>\<^verbatim>\<open>obj[k]\<close> for a key \<open>k\<close> that is not \<^verbatim>\<open>hasOwnProperty\<close>, and \<^verbatim>\<open>obj[k] = v\<close>.\<close>

definition getProp :: "store \<Rightarrow> addr \<Rightarrow> string \<Rightarrow> string option" where
  "getProp h a k = map_of (props (h ! a)) k"

definition setProp :: "store \<Rightarrow> addr \<Rightarrow> string \<Rightarrow> string \<Rightarrow> store" where
  "setProp h a k v =
     h[a := \<lparr>props = AList.update k v (props (h ! a)),
             vue_hasOwnProperty = (vue_hasOwnProperty (h ! a) \<and> k \<noteq> ''hasOwnProperty'')\<rparr>]"

text \<open>
  \<^verbatim>\<open>{ ...row }\<close> for a row of \<^verbatim>\<open>tableData.value\<close>: a new object with the own
  properties of \<open>row\<close>, each with the value the proxy answers for it.
\<close>

definition spread :: "store \<Rightarrow> addr \<Rightarrow> store \<times> addr" where
  "spread h a =
     (h @ [\<lparr>props = props (h ! a),
             vue_hasOwnProperty = (map_of (props (h ! a)) ''hasOwnProperty'' \<noteq> None)\<rparr>],
      length h)"

text \<open>
  \<^verbatim>\<open>newRow.hasOwnProperty('id')\<close> first reads the property \<^verbatim>\<open>hasOwnProperty\<close> of the
  object. Without a property of that name the method of \<^verbatim>\<open>Object.prototype\<close> answers.
  With Vue's function there, the function calls \<^verbatim>\<open>hasOwnProperty\<close> on the same object,
  which is the function again: the calls nest until the stack is full, a RangeError.
  With a string there, the call is a TypeError.
\<close>

definition hasOwnProperty :: "store \<Rightarrow> addr \<Rightarrow> string \<Rightarrow> js_error + bool" where
  "hasOwnProperty h a k =
     (case map_of (props (h ! a)) ''hasOwnProperty'' of
        Some f \<Rightarrow> if vue_hasOwnProperty (h ! a) then Inl RangeError else Inl TypeError
      | None \<Rightarrow> Inr (map_of (props (h ! a)) k \<noteq> None))"

text \<open>New objects for the rows of an array that comes from outside (the parser, JSON).\<close>

definition alloc_rows :: "store \<Rightarrow> row list \<Rightarrow> store \<times> addr list" where
  "alloc_rows h rs = (h @ map raw_object rs, [length h ..< length h + length rs])"

section \<open>The pieces of the upload\<close>

text \<open>The callback of \<^verbatim>\<open>tableData.value.map\<close> in \<^verbatim>\<open>uploadMetadata\<close>.\<close>

definition uploadRow :: "store \<Rightarrow> addr \<Rightarrow> store \<times> (js_error + addr)" where
  "uploadRow h row =
     (let (h1, newRow) = spread h row;
          accession = getProp h1 newRow ''accessionVersion'';
          sample = getProp h1 newRow ''SampleID''
      in if truthy accession \<and> truthy sample
         then (setProp h1 newRow ''id'' (template accession @ ''|'' @ template sample), Inr newRow)
         else (case hasOwnProperty h1 newRow ''id'' of
                 Inl e \<Rightarrow> (h1, Inl e)
               | Inr has \<Rightarrow>
                   if \<not> has then (setProp h1 newRow ''id'' [], Inr newRow)
                   else (h1, Inr newRow)))"

text \<open>\<^verbatim>\<open>Array.prototype.map\<close> with that callback: an exception ends the loop.\<close>

fun map_uploadRow :: "store \<Rightarrow> addr list \<Rightarrow> store \<times> (js_error + addr list)" where
  "map_uploadRow h [] = (h, Inr [])"
| "map_uploadRow h (a # as) =
     (case uploadRow h a of
        (h1, Inl e) \<Rightarrow> (h1, Inl e)
      | (h1, Inr n) \<Rightarrow>
          (case map_uploadRow h1 as of
             (h2, Inl e) \<Rightarrow> (h2, Inl e)
           | (h2, Inr ns) \<Rightarrow> (h2, Inr (n # ns))))"

record column =
  field :: string
  header :: string

definition headersForUpload :: "column list \<Rightarrow> string list" where
  "headersForUpload allColumns_value =
     (let originalHeaders = map field allColumns_value
      in ''id'' # filter (\<lambda>h. toLowerCase h \<noteq> ''id'' \<and> h \<noteq> ''submissionId'') originalHeaders)"

text \<open>\<^verbatim>\<open>groups[0]\<close> and \<^verbatim>\<open>.groupId\<close> on whatever the response body parsed to.\<close>

fun index0 :: "jsval \<Rightarrow> js_error + jsval" where
  "index0 JUndefined = Inl TypeError"
| "index0 JNull = Inl TypeError"
| "index0 (JArr []) = Inr JUndefined"
| "index0 (JArr (v # vs)) = Inr v"
| "index0 (JStr []) = Inr JUndefined"
| "index0 (JStr (c # cs)) = Inr (JStr [c])"
| "index0 (JObj kvs) = (case map_of kvs ''0'' of None \<Rightarrow> Inr JUndefined | Some v \<Rightarrow> Inr v)"
| "index0 (JBool b) = Inr JUndefined"
| "index0 (JNum n) = Inr JUndefined"

fun get_groupId :: "jsval \<Rightarrow> js_error + jsval" where
  "get_groupId JUndefined = Inl TypeError"
| "get_groupId JNull = Inl TypeError"
| "get_groupId (JObj kvs) = (case map_of kvs ''groupId'' of None \<Rightarrow> Inr JUndefined | Some v \<Rightarrow> Inr v)"
| "get_groupId (JArr vs) = Inr JUndefined"
| "get_groupId (JStr s) = Inr JUndefined"
| "get_groupId (JBool b) = Inr JUndefined"
| "get_groupId (JNum n) = Inr JUndefined"

definition groups0_groupId :: "jsval \<Rightarrow> js_error + jsval" where
  "groups0_groupId groups = (case index0 groups of Inl e \<Rightarrow> Inl e | Inr g \<Rightarrow> get_groupId g)"

text \<open>The template literal of the revision URL; converting the group identifier can throw.\<close>

definition revisionUrl :: "string \<Rightarrow> string \<Rightarrow> jsval \<Rightarrow> js_error + string" where
  "revisionUrl returnUrl organism groupId =
     (case toString groupId of
        Inl e \<Rightarrow> Inl e
      | Inr groupId_text \<Rightarrow>
          Inr (replace_slash_end returnUrl @ ''/'' @ organism @ ''/revise?groupId=''
               @ groupId_text @ ''&dataUseTermsType=OPEN''))"

section \<open>The state of the component\<close>

datatype severity = Success | Info | Warn | Error

record toast =
  severity :: severity
  summary :: string
  detail :: string
  life :: nat

text \<open>
  The Keycloak client: \<^verbatim>\<open>keycloak.authenticated\<close> and \<^verbatim>\<open>keycloak.token\<close>. The
  variable \<^verbatim>\<open>keycloak\<close> starts as \<^verbatim>\<open>null\<close>.
\<close>

record keycloak_client =
  authenticated :: bool
  token :: "string option"

text \<open>
  The body of the revision request. \<open>metadataFile\<close> holds the two arguments of
  \<^verbatim>\<open>Papa.unparse\<close> (the upload rows and the column list; the delimiter is the tab), which
  the library turns into the text of the file.
\<close>

record form_data =
  metadataFile :: "object list \<times> string list"
  sequenceFile :: string
  description :: string

text \<open>What the component asks of the world outside, in the order it asks.\<close>

datatype event =
    Papa_parse string
  | Keycloak_new string string string
  | Keycloak_init
  | Keycloak_updateToken nat
  | Keycloak_login
  | Fetch_get string "string option"
  | Fetch_post string string form_data

record app_state =
  metadataUrl :: string
  store :: store
  tableData :: "addr list"
  allColumns :: "column list"
  selectedColumns :: "string list"
  isAuthenticated :: bool
  authenticationInProgress :: bool
  keycloak :: "keycloak_client option"
  localStorage :: "string option"
  toasts :: "toast list"
  console :: "string list"
  trace :: "event list"

text \<open>The row records behind \<^verbatim>\<open>tableData.value\<close>.\<close>

definition rows :: "app_state \<Rightarrow> row list" where
  "rows s = map (\<lambda>a. props (store s ! a)) (tableData s)"

definition toast_add :: "severity \<Rightarrow> string \<Rightarrow> string \<Rightarrow> app_state \<Rightarrow> app_state" where
  "toast_add sev summ det s =
     s\<lparr>toasts := toasts s @ [\<lparr>severity = sev, summary = summ, detail = det, life = 3000\<rparr>]\<rparr>"

definition console_log :: "string \<Rightarrow> app_state \<Rightarrow> app_state" where
  "console_log msg s = s\<lparr>console := console s @ [msg]\<rparr>"

definition request :: "event \<Rightarrow> app_state \<Rightarrow> app_state" where
  "request e s = s\<lparr>trace := trace s @ [e]\<rparr>"

text \<open>
  \<^verbatim>\<open>new URLSearchParams(window.location.search).get(name)\<close>, and the answers of the
  outside world to one run of a handler: what \<^verbatim>\<open>keycloak.init\<close> resolves to (\<open>None\<close>:
  it rejects), the token the client then holds, what \<^verbatim>\<open>updateToken\<close> resolves to and
  the fields of the client after that call (a refreshed token replaces the old one),
  whether \<^verbatim>\<open>login\<close> resolves, and the three responses of \<^verbatim>\<open>fetch\<close>: rejected, or a
  response with its \<^verbatim>\<open>ok\<close> flag and its body (for the group list what \<^verbatim>\<open>json()\<close>
  resolves to, \<open>None\<close> when it rejects).
\<close>

type_synonym params = "string \<Rightarrow> string option"

datatype 'a response = Fetch_rejected | Response bool 'a

record env =
  kc_init :: "bool option"
  kc_token :: "string option"
  kc_updateToken :: "bool option"
  kc_refreshed :: keycloak_client
  kc_login :: bool
  groups_fetch :: "jsval option response"
  fasta_fetch :: "string response"
  upload_fetch :: "unit response"

section \<open>Loading, clearing\<close>

text \<open>
  \<^verbatim>\<open>loadMetadata\<close> starts the download and returns; the parser later calls one of the
  two callbacks, \<^verbatim>\<open>complete\<close> with its results or \<^verbatim>\<open>error\<close>. The callback
  \<^verbatim>\<open>complete\<close> reads \<^verbatim>\<open>results.data\<close> and nothing else of the results.
\<close>

definition loadMetadata :: "app_state \<Rightarrow> app_state" where
  "loadMetadata s =
     (if metadataUrl s = [] then s else request (Papa_parse (metadataUrl s)) s)"

definition loadMetadata_complete :: "row list \<Rightarrow> app_state \<Rightarrow> app_state" where
  "loadMetadata_complete results_data s =
     (let (h, as) = alloc_rows (store s) results_data;
          s1 = s\<lparr>store := h, tableData := as\<rparr>;
          s2 = (case results_data of
                  [] \<Rightarrow> s1
                | row0 # _ \<Rightarrow>
                    (let fields = map fst row0
                     in s1\<lparr>allColumns := map (\<lambda>f. \<lparr>field = f, header = f\<rparr>) fields,
                           selectedColumns := fields\<rparr>))
      in toast_add Success ''Success'' ''Metadata loaded successfully'' s2)"

definition loadMetadata_error :: "app_state \<Rightarrow> app_state" where
  "loadMetadata_error s =
     toast_add Error ''Error'' ''Failed to load or parse metadata''
       (console_log ''Error parsing TSV:'' s)"

text \<open>
  One load, run to its callback, and neither callback when no download was started.
  The parser (PapaParse, not part of the sources) calls \<^verbatim>\<open>error\<close> when the download
  fails. Content it cannot read cleanly (a line with too few or too many fields, a quote
  that is not closed) does not make it call \<^verbatim>\<open>error\<close>: it calls \<^verbatim>\<open>complete\<close> with
  the rows it could read in \<^verbatim>\<open>results.data\<close> and the problems in
  \<^verbatim>\<open>results.errors\<close>, each with its \<^verbatim>\<open>type\<close> and \<^verbatim>\<open>code\<close>.
\<close>

record parse_error =
  error_type :: string
  error_code :: string

record parse_results =
  data :: "row list"
  errors :: "parse_error list"

datatype load_outcome = Load_complete parse_results | Load_failed

definition loadMetadata_run :: "load_outcome \<Rightarrow> app_state \<Rightarrow> app_state" where
  "loadMetadata_run outcome s =
     (if metadataUrl s = [] then loadMetadata s
      else (case outcome of
              Load_complete results \<Rightarrow> loadMetadata_complete (data results) (loadMetadata s)
            | Load_failed \<Rightarrow> loadMetadata_error (loadMetadata s)))"

definition resetTable :: "app_state \<Rightarrow> app_state" where
  "resetTable s = loadMetadata s"

definition clearLocalStorage :: "app_state \<Rightarrow> app_state" where
  "clearLocalStorage s =
     toast_add Warn ''Local Storage Cleared'' ''Please reload the page to see the changes''
       (s\<lparr>localStorage := None\<rparr>)"

section \<open>Authentication\<close>

definition hasAuthParams :: "params \<Rightarrow> bool" where
  "hasAuthParams q =
     (truthy (q ''return-url'') \<and> truthy (q ''organism'') \<and> truthy (q ''auth-endpoint'')
      \<and> truthy (q ''auth-realm'') \<and> truthy (q ''auth-client-id''))"

definition initializeAuthentication :: "params \<Rightarrow> env \<Rightarrow> app_state \<Rightarrow> app_state" where
  "initializeAuthentication q w s =
     (if \<not> hasAuthParams q \<or> authenticationInProgress s then s
      else
        (let s1 = s\<lparr>authenticationInProgress := True\<rparr>;
             s2 = (case keycloak s1 of
                     Some kc \<Rightarrow> s1
                   | None \<Rightarrow>
                       request (Keycloak_new (template (q ''auth-endpoint''))
                                  (template (q ''auth-realm'')) (template (q ''auth-client-id'')))
                         (s1\<lparr>keycloak := Some \<lparr>authenticated = False, token = None\<rparr>\<rparr>));
             s3 = request Keycloak_init (console_log ''Initializing Keycloak authentication...'' s2);
             s4 = (case kc_init w of
                     Some True \<Rightarrow>
                       toast_add Success ''Authentication Successful'' ''You are now authenticated''
                         ((console_log ''Authentication result:'' s3)
                            \<lparr>keycloak := Some \<lparr>authenticated = True, token = kc_token w\<rparr>,
                             isAuthenticated := True\<rparr>)
                   | Some False \<Rightarrow>
                       toast_add Info ''Authentication Available''
                         ''Click Upload to authenticate when ready''
                         ((console_log ''Authentication result:'' s3)
                            \<lparr>keycloak := Some \<lparr>authenticated = False, token = None\<rparr>,
                             isAuthenticated := False\<rparr>)
                   | None \<Rightarrow>
                       toast_add Warn ''Authentication Available''
                         ''Authentication setup complete. Click Upload to sign in.''
                         ((console_log ''Authentication initialization error:'' s3)
                            \<lparr>isAuthenticated := False\<rparr>))
         in s4\<lparr>authenticationInProgress := False\<rparr>))"

definition validateAndRefreshToken :: "env \<Rightarrow> app_state \<Rightarrow> bool \<times> app_state" where
  "validateAndRefreshToken w s =
     (case keycloak s of
        None \<Rightarrow> (False, s)
      | Some kc \<Rightarrow>
          if \<not> authenticated kc then (False, s)
          else
            (let s1 = (request (Keycloak_updateToken 30) s)\<lparr>keycloak := Some (kc_refreshed w)\<rparr>
             in case kc_updateToken w of
                  Some tokenValid \<Rightarrow> (True, s1\<lparr>isAuthenticated := True\<rparr>)
                | None \<Rightarrow>
                    (False, (console_log ''Token refresh failed:'' s1)\<lparr>isAuthenticated := False\<rparr>)))"

definition authentication_failed :: "app_state \<Rightarrow> bool \<times> app_state" where
  "authentication_failed s =
     (False, toast_add Error ''Authentication Failed'' ''Could not authenticate user''
               (console_log ''Authentication failed:'' s))"

definition ensureAuthenticated :: "params \<Rightarrow> env \<Rightarrow> app_state \<Rightarrow> bool \<times> app_state" where
  "ensureAuthenticated q w s =
     (if \<not> hasAuthParams q
      then (False, toast_add Error ''Error'' ''Missing authentication parameters'' s)
      else if isAuthenticated s \<and> (case keycloak s of None \<Rightarrow> False | Some kc \<Rightarrow> authenticated kc)
      then validateAndRefreshToken w s
      else
        (let s1 = (case keycloak s of None \<Rightarrow> initializeAuthentication q w s | Some kc \<Rightarrow> s)
         in case keycloak s1 of
              None \<Rightarrow> authentication_failed s1
            | Some kc \<Rightarrow>
                if \<not> authenticated kc
                then (let s2 = request Keycloak_login s1
                      in if kc_login w then (False, s2) else authentication_failed s2)
                else (True, s1\<lparr>isAuthenticated := True\<rparr>)))"

section \<open>Upload\<close>

text \<open>
  The \<^verbatim>\<open>try\<close> block of \<^verbatim>\<open>uploadMetadata\<close>: the state it leaves, and the exception that
  ended it, if one did.
\<close>

definition upload_try ::
  "string \<Rightarrow> string \<Rightarrow> string \<Rightarrow> env \<Rightarrow> app_state \<Rightarrow> app_state \<times> js_error option" where
  "upload_try returnUrl organism fastaUrl w s =
     (case keycloak s of
        None \<Rightarrow> (s, Some TypeError)
      | Some kc \<Rightarrow>
          (let bearer = ''Bearer '' @ template (token kc);
               s1 = request (Fetch_get fastaUrl None)
                      (request (Fetch_get (replace_slash_end returnUrl @ ''/user/groups'')
                                  (Some bearer)) s)
           in case groups_fetch w of
                Fetch_rejected \<Rightarrow> (s1, Some NetworkError)
              | Response groups_ok groups_body \<Rightarrow>
           (case fasta_fetch w of
                Fetch_rejected \<Rightarrow> (s1, Some NetworkError)
              | Response fasta_ok fastaBlob \<Rightarrow>
           if \<not> groups_ok then (s1, Some (Error_msg ''Failed to fetch user groups''))
           else if \<not> fasta_ok then (s1, Some (Error_msg ''Failed to fetch FASTA file''))
           else
           (case groups_body of
                None \<Rightarrow> (s1, Some SyntaxError)
              | Some groups \<Rightarrow>
           (case groups0_groupId groups of
                Inl e \<Rightarrow> (s1, Some e)
              | Inr groupId \<Rightarrow>
           (case revisionUrl returnUrl organism groupId of
                Inl e \<Rightarrow> (s1, Some e)
              | Inr url \<Rightarrow>
           (case map_uploadRow (store s1) (tableData s1) of
                (h, Inl e) \<Rightarrow> (s1\<lparr>store := h\<rparr>, Some e)
              | (h, Inr dataForUpload) \<Rightarrow>
           (let s2 = s1\<lparr>store := h\<rparr>;
                formData = \<lparr>metadataFile = (map (\<lambda>a. h ! a) dataForUpload,
                                             headersForUpload (allColumns s2)),
                            sequenceFile = fastaBlob,
                            description = ''metadataFile''\<rparr>;
                s3 = request (Fetch_post url bearer formData) s2
            in case upload_fetch w of
                Fetch_rejected \<Rightarrow> (s3, Some NetworkError)
              | Response upload_ok u \<Rightarrow>
                  if upload_ok
                  then (toast_add Success ''Success'' ''Metadata uploaded successfully'' s3, None)
                  else (s3, Some (Error_msg ''Upload failed''))))))))))"

definition uploadMetadata :: "params \<Rightarrow> env \<Rightarrow> app_state \<Rightarrow> app_state" where
  "uploadMetadata q w s =
     (let returnUrl = q ''return-url'';
          organism = q ''organism'';
          fastaUrl = q ''input-fasta''
      in if \<not> truthy returnUrl \<or> \<not> truthy organism \<or> \<not> truthy fastaUrl
         then toast_add Error ''Error'' ''Missing URL parameters for upload'' s
         else
           (case ensureAuthenticated q w s of
              (False, s1) \<Rightarrow> s1
            | (True, s1) \<Rightarrow>
                (case upload_try (template returnUrl) (template organism) (template fastaUrl) w s1 of
                   (s2, None) \<Rightarrow> s2
                 | (s2, Some e) \<Rightarrow>
                     toast_add Error ''Error'' ''An error occurred during upload''
                       (console_log ''Upload error:'' s2))))"

section \<open>JSON text\<close>

text \<open>
  \<^verbatim>\<open>JSON.stringify\<close> and \<^verbatim>\<open>JSON.parse\<close> are built into the language; they are modelled
  here as far as the stored snapshot needs them. \<open>JSON_stringify\<close> writes no white space,
  escapes the quote, the backslash and the control characters, writes \<^verbatim>\<open>undefined\<close> in
  an array as \<^verbatim>\<open>null\<close> and leaves a property that is \<^verbatim>\<open>undefined\<close> out. \<open>JSON_parse\<close>
  reads strings with their escapes, arrays, objects and the three literals, without white
  space. It does not read number literals, and a \<^verbatim>\<open>\u\<close> escape above \<^verbatim>\<open>00ff\<close> is
  outside the character type of this theory; both are refused. The members of a parsed
  object are in the order of the text, which is the enumeration order of the object
  whenever the text was written from an object.
\<close>

definition hex_digit :: "nat \<Rightarrow> char" where
  "hex_digit n = ''0123456789abcdef'' ! n"

definition quote_char :: "char \<Rightarrow> string" where
  "quote_char c =
     (if c = CHR 0x22 then [CHR 0x5C, CHR 0x22]
      else if c = CHR 0x5C then [CHR 0x5C, CHR 0x5C]
      else if c = CHR 0x08 then [CHR 0x5C, CHR ''b'']
      else if c = CHR 0x0C then [CHR 0x5C, CHR ''f'']
      else if c = CHR 0x0A then [CHR 0x5C, CHR ''n'']
      else if c = CHR 0x0D then [CHR 0x5C, CHR ''r'']
      else if c = CHR 0x09 then [CHR 0x5C, CHR ''t'']
      else if of_char c < (32::nat)
      then [CHR 0x5C, CHR ''u'', CHR ''0'', CHR ''0'',
            hex_digit (of_char c div 16), hex_digit (of_char c mod 16)]
      else [c])"

definition quote :: "string \<Rightarrow> string" where
  "quote s = CHR 0x22 # concat (map quote_char s) @ [CHR 0x22]"

fun JSON_stringify :: "jsval \<Rightarrow> string" where
  "JSON_stringify JUndefined = ''undefined''"
| "JSON_stringify JNull = ''null''"
| "JSON_stringify (JBool b) = (if b then ''true'' else ''false'')"
| "JSON_stringify (JNum n) = show_int (sint n)"
| "JSON_stringify (JStr s) = quote s"
| "JSON_stringify (JArr vs) =
     ''['' @ join '','' (map (\<lambda>v. if v = JUndefined then ''null'' else JSON_stringify v) vs) @ '']''"
| "JSON_stringify (JObj kvs) =
     ''{'' @ join '','' (map (\<lambda>(k, v). quote k @ '':'' @ JSON_stringify v)
                          (filter (\<lambda>(k, v). v \<noteq> JUndefined) kvs)) @ ''}''"

definition hex_value :: "char \<Rightarrow> nat option" where
  "hex_value c =
     map_of (zip ''0123456789abcdefABCDEF''
               [0, 1, 2, 3, 4, 5, 6, 7, 8, 9, 10, 11, 12, 13, 14, 15, 10, 11, 12, 13, 14, 15]) c"

definition code_unit :: "char \<Rightarrow> char \<Rightarrow> char \<Rightarrow> char \<Rightarrow> char option" where
  "code_unit h1 h2 h3 h4 =
     (case (hex_value h1, hex_value h2, hex_value h3, hex_value h4) of
        (Some a, Some b, Some c, Some d) \<Rightarrow>
          if a = 0 \<and> b = 0 then Some (char_of (16 * c + d)) else None
      | _ \<Rightarrow> None)"

definition unescape :: "char \<Rightarrow> char option" where
  "unescape e =
     map_of [(CHR 0x22, CHR 0x22), (CHR 0x5C, CHR 0x5C), (CHR ''/'', CHR ''/''),
             (CHR ''b'', CHR 0x08), (CHR ''f'', CHR 0x0C), (CHR ''n'', CHR 0x0A),
             (CHR ''r'', CHR 0x0D), (CHR ''t'', CHR 0x09)] e"

text \<open>The characters of a string after its opening quote, and what follows the closing one.\<close>

fun parse_chars :: "string \<Rightarrow> (string \<times> string) option" where
  "parse_chars [] = None"
| "parse_chars (c # cs) =
     (if c = CHR 0x22 then Some ([], cs)
      else if c = CHR 0x5C then
        (case cs of
           [] \<Rightarrow> None
         | e # cs1 \<Rightarrow>
             if e = CHR ''u'' then
               (case cs1 of
                  h1 # h2 # h3 # h4 # cs2 \<Rightarrow>
                    (case code_unit h1 h2 h3 h4 of
                       None \<Rightarrow> None
                     | Some d \<Rightarrow> map_option (\<lambda>(s, r). (d # s, r)) (parse_chars cs2))
                | _ \<Rightarrow> None)
             else
               (case unescape e of
                  None \<Rightarrow> None
                | Some d \<Rightarrow> map_option (\<lambda>(s, r). (d # s, r)) (parse_chars cs1)))
      else if of_char c < (32::nat) then None
      else map_option (\<lambda>(s, r). (c # s, r)) (parse_chars cs))"

fun strip_prefix :: "string \<Rightarrow> string \<Rightarrow> string option" where
  "strip_prefix [] cs = Some cs"
| "strip_prefix (p # ps) [] = None"
| "strip_prefix (p # ps) (c # cs) = (if p = c then strip_prefix ps cs else None)"

text \<open>
  The members of an object are set one after the other: a key that comes again replaces
  the value and keeps the place of the first.
\<close>

definition set_members :: "(string \<times> jsval) list \<Rightarrow> (string \<times> jsval) list" where
  "set_members kvs = foldl (\<lambda>obj (k, v). AList.update k v obj) [] kvs"

text \<open>
  Recursive descent. The first argument bounds the depth of the recursion; the length of
  the text is always enough, since every call has read a character before it recurses.
\<close>

fun parse_value :: "nat \<Rightarrow> string \<Rightarrow> (jsval \<times> string) option"
  and parse_elements :: "nat \<Rightarrow> string \<Rightarrow> (jsval list \<times> string) option"
  and parse_members :: "nat \<Rightarrow> string \<Rightarrow> ((string \<times> jsval) list \<times> string) option"
where
  "parse_value 0 cs = None"
| "parse_value (Suc n) [] = None"
| "parse_value (Suc n) (c # cs) =
     (if c = CHR 0x22 then map_option (\<lambda>(s, r). (JStr s, r)) (parse_chars cs)
      else if c = CHR ''['' then
        (case strip_prefix '']'' cs of
           Some r \<Rightarrow> Some (JArr [], r)
         | None \<Rightarrow> map_option (\<lambda>(vs, r). (JArr vs, r)) (parse_elements n cs))
      else if c = CHR ''{'' then
        (case strip_prefix ''}'' cs of
           Some r \<Rightarrow> Some (JObj [], r)
         | None \<Rightarrow> map_option (\<lambda>(kvs, r). (JObj (set_members kvs), r)) (parse_members n cs))
      else
        (case strip_prefix ''null'' (c # cs) of
           Some r \<Rightarrow> Some (JNull, r)
         | None \<Rightarrow>
        (case strip_prefix ''true'' (c # cs) of
           Some r \<Rightarrow> Some (JBool True, r)
         | None \<Rightarrow>
        (case strip_prefix ''false'' (c # cs) of
           Some r \<Rightarrow> Some (JBool False, r)
         | None \<Rightarrow> None))))"
| "parse_elements 0 cs = None"
| "parse_elements (Suc n) cs =
     (case parse_value n cs of
        None \<Rightarrow> None
      | Some (v, r) \<Rightarrow>
          (case r of
             [] \<Rightarrow> None
           | d # r1 \<Rightarrow>
               if d = CHR '','' then map_option (\<lambda>(vs, r2). (v # vs, r2)) (parse_elements n r1)
               else if d = CHR '']'' then Some ([v], r1)
               else None))"
| "parse_members 0 cs = None"
| "parse_members (Suc n) cs =
     (case strip_prefix [CHR 0x22] cs of
        None \<Rightarrow> None
      | Some cs1 \<Rightarrow>
     (case parse_chars cs1 of
        None \<Rightarrow> None
      | Some (k, r) \<Rightarrow>
     (case strip_prefix '':'' r of
        None \<Rightarrow> None
      | Some r1 \<Rightarrow>
     (case parse_value n r1 of
        None \<Rightarrow> None
      | Some (v, r2) \<Rightarrow>
          (case r2 of
             [] \<Rightarrow> None
           | d # r3 \<Rightarrow>
               if d = CHR '','' then map_option (\<lambda>(kvs, r4). ((k, v) # kvs, r4)) (parse_members n r3)
               else if d = CHR ''}'' then Some ([(k, v)], r3)
               else None)))))"

definition JSON_parse :: "string \<Rightarrow> jsval option" where
  "JSON_parse text =
     (case parse_value (length text) text of
        Some (v, []) \<Rightarrow> Some v
      | _ \<Rightarrow> None)"

text \<open>
  The values both functions agree on: strings, literals, arrays and objects of them, an
  object with no key twice.
\<close>

fun plain :: "jsval \<Rightarrow> bool" where
  "plain JUndefined = False"
| "plain JNull = True"
| "plain (JBool b) = True"
| "plain (JNum n) = False"
| "plain (JStr s) = True"
| "plain (JArr vs) = list_all plain vs"
| "plain (JObj kvs) = (distinct (map fst kvs) \<and> list_all (\<lambda>(k, v). plain v) kvs)"

section \<open>Persisted view state\<close>

text \<open>
  The callback of \<^verbatim>\<open>watch([tableData, allColumns, selectedColumns], ..., { deep: true })\<close>
  writes the snapshot under the key \<^verbatim>\<open>metadata-table-editor-state\<close>; \<open>localStorage\<close>
  is the item under that key.

  The values the callback hands to \<^verbatim>\<open>JSON.stringify\<close> are Vue's reactive proxies. It
  reads every property of a row through the proxy, which answers a function for the key
  \<^verbatim>\<open>hasOwnProperty\<close>, and it leaves a property whose value is a function out. So
  \<open>stringified_props\<close> are the properties of a row that reach the text.
\<close>

definition stringified_props :: "row \<Rightarrow> row" where
  "stringified_props r = filter (\<lambda>(k, v). k \<noteq> ''hasOwnProperty'') r"

definition row_json :: "row \<Rightarrow> jsval" where
  "row_json r = JObj (map (\<lambda>(k, v). (k, JStr v)) (stringified_props r))"

definition column_json :: "column \<Rightarrow> jsval" where
  "column_json c = JObj [(''field'', JStr (field c)), (''header'', JStr (header c))]"

definition state_json :: "app_state \<Rightarrow> jsval" where
  "state_json s =
     JObj [(''tableData'', JArr (map row_json (rows s))),
           (''allColumns'', JArr (map column_json (allColumns s))),
           (''selectedColumns'', JArr (map JStr (selectedColumns s))),
           (''metadataUrl'', JStr (metadataUrl s))]"

definition watch_callback :: "app_state \<Rightarrow> app_state" where
  "watch_callback s = s\<lparr>localStorage := Some (JSON_stringify (state_json s))\<rparr>"

text \<open>
  The state of this theory is typed, the value \<^verbatim>\<open>JSON.parse\<close> returns is not. The
  functions \<open>as_\<dots>\<close> read a parsed value as a string, an array, a row record, a column
  definition and a snapshot; a stored value of another shape has no counterpart in the
  typed state and \<open>onMounted\<close> answers \<open>Untyped_snapshot\<close> for it.
\<close>

fun as_string :: "jsval \<Rightarrow> string option" where
  "as_string (JStr s) = Some s"
| "as_string v = None"

fun as_array :: "(jsval \<Rightarrow> 'a option) \<Rightarrow> jsval \<Rightarrow> 'a list option" where
  "as_array f (JArr vs) = those (map f vs)"
| "as_array f v = None"

fun as_row :: "jsval \<Rightarrow> row option" where
  "as_row (JObj kvs) = those (map (\<lambda>(k, v). map_option (Pair k) (as_string v)) kvs)"
| "as_row v = None"

fun as_column :: "jsval \<Rightarrow> column option" where
  "as_column (JObj kvs) =
     (case (Option.bind (map_of kvs ''field'') as_string,
            Option.bind (map_of kvs ''header'') as_string) of
        (Some f, Some h) \<Rightarrow> if length kvs = 2 then Some \<lparr>field = f, header = h\<rparr> else None
      | _ \<Rightarrow> None)"
| "as_column v = None"

text \<open>An Application Snapshot: source URL, row records, column definitions, selection.\<close>

type_synonym snapshot = "string \<times> row list \<times> column list \<times> string list"

definition snapshot :: "app_state \<Rightarrow> snapshot" where
  "snapshot s = (metadataUrl s, rows s, allColumns s, selectedColumns s)"

fun as_snapshot :: "jsval \<Rightarrow> snapshot option" where
  "as_snapshot (JObj kvs) =
     (case (Option.bind (map_of kvs ''metadataUrl'') as_string,
            Option.bind (map_of kvs ''tableData'') (as_array as_row),
            Option.bind (map_of kvs ''allColumns'') (as_array as_column),
            Option.bind (map_of kvs ''selectedColumns'') (as_array as_string)) of
        (Some url, Some td, Some ac, Some sc) \<Rightarrow> Some (url, td, ac, sc)
      | _ \<Rightarrow> None)"
| "as_snapshot v = None"

datatype mount_error = JSON_SyntaxError | Untyped_snapshot

text \<open>The two branches of \<^verbatim>\<open>onMounted\<close>, and the hook itself.\<close>

definition onMounted_restore :: "string \<Rightarrow> app_state \<Rightarrow> mount_error + app_state" where
  "onMounted_restore savedState s =
     (case JSON_parse savedState of
        None \<Rightarrow> Inl JSON_SyntaxError
      | Some state \<Rightarrow>
          (case as_snapshot state of
             None \<Rightarrow> Inl Untyped_snapshot
           | Some (url, td, ac, sc) \<Rightarrow>
               (let (h, as) = alloc_rows (store s) td
                in Inr (s\<lparr>store := h, tableData := as, allColumns := ac,
                          selectedColumns := sc, metadataUrl := url\<rparr>))))"

definition onMounted_input :: "params \<Rightarrow> app_state \<Rightarrow> app_state" where
  "onMounted_input q s =
     (let inputMetadataUrl = q ''input-metadata''
      in if truthy inputMetadataUrl
         then loadMetadata (s\<lparr>metadataUrl := template inputMetadataUrl\<rparr>)
         else s)"

definition onMounted :: "params \<Rightarrow> env \<Rightarrow> app_state \<Rightarrow> mount_error + app_state" where
  "onMounted q w s =
     (let savedState = localStorage s
      in case (if truthy savedState then onMounted_restore (template savedState) s
               else Inr (onMounted_input q s)) of
           Inl e \<Rightarrow> Inl e
         | Inr s1 \<Rightarrow> Inr (if hasAuthParams q then initializeAuthentication q w s1 else s1))"

text \<open>The requests that load a table.\<close>

fun is_load :: "event \<Rightarrow> bool" where
  "is_load (Papa_parse url) = True"
| "is_load e = False"

section \<open>Well-formed states and a scenario\<close>

text \<open>
  Every address of \<^verbatim>\<open>tableData\<close> is an object of the store, and a row record, being an
  object, has no key twice.
\<close>

definition valid_table :: "app_state \<Rightarrow> bool" where
  "valid_table s = list_all (\<lambda>a. a < length (store s)) (tableData s)"

definition wf_rows :: "app_state \<Rightarrow> bool" where
  "wf_rows s = list_all (\<lambda>r. distinct (map fst r)) (rows s)"

text \<open>The component as its \<^verbatim>\<open>ref\<close>s start it, over a given stored item.\<close>

definition initial_state :: "string option \<Rightarrow> app_state" where
  "initial_state stored =
     \<lparr>metadataUrl = [], store = [], tableData = [], allColumns = [], selectedColumns = [],
      isAuthenticated = False, authenticationInProgress = False, keycloak = None,
      localStorage = stored, toasts = [], console = [], trace = []\<rparr>"

text \<open>
  The end-to-end upload scenario of the specification: one row, three columns, the return
  URL \<^verbatim>\<open>https://api.example/\<close>, the organism \<^verbatim>\<open>flu\<close>, the group list
  \<^verbatim>\<open>[{groupId: 7}]\<close>, a signed-in user whose token is refreshed and a submission
  that succeeds.
\<close>

definition scenario_params :: params where
  "scenario_params =
     [''return-url'' \<mapsto> ''https://api.example/'', ''organism'' \<mapsto> ''flu'',
      ''input-fasta'' \<mapsto> ''https://files.example/seq.fasta'',
      ''auth-endpoint'' \<mapsto> ''https://auth.example'', ''auth-realm'' \<mapsto> ''realm'',
      ''auth-client-id'' \<mapsto> ''editor'']"

definition scenario_env :: env where
  "scenario_env =
     \<lparr>kc_init = Some True, kc_token = Some ''tok'', kc_updateToken = Some True,
      kc_refreshed = \<lparr>authenticated = True, token = Some ''tok2''\<rparr>, kc_login = True,
      groups_fetch = Response True (Some (JArr [JObj [(''groupId'', JNum 7)]])),
      fasta_fetch = Response True ''>X.1'',
      upload_fetch = Response True ()\<rparr>"

definition scenario_state :: app_state where
  "scenario_state =
     \<lparr>metadataUrl = ''https://files.example/meta.tsv'',
      store = [raw_object [(''accessionVersion'', ''X.1''), (''SampleID'', ''S1''), (''other'', ''v'')]],
      tableData = [0],
      allColumns = map (\<lambda>f. \<lparr>field = f, header = f\<rparr>) [''accessionVersion'', ''SampleID'', ''other''],
      selectedColumns = [''accessionVersion'', ''SampleID'', ''other''],
      isAuthenticated = True,
      authenticationInProgress = False,
      keycloak = Some \<lparr>authenticated = True, token = Some ''tok''\<rparr>,
      localStorage = None,
      toasts = [],
      console = [],
      trace = []\<rparr>"

text \<open>
  A table with one row that has a column named \<^verbatim>\<open>hasOwnProperty\<close>, as the TSV
  \<^verbatim>\<open>hasOwnProperty<TAB>SampleID\<close>, \<^verbatim>\<open>x<TAB>S1\<close> loads it.
\<close>

definition shadow_state :: app_state where
  "shadow_state =
     \<lparr>metadataUrl = ''https://files.example/meta.tsv'',
      store = [raw_object [(''hasOwnProperty'', ''x''), (''SampleID'', ''S1'')]],
      tableData = [0],
      allColumns = map (\<lambda>f. \<lparr>field = f, header = f\<rparr>) [''hasOwnProperty'', ''SampleID''],
      selectedColumns = [''hasOwnProperty'', ''SampleID''],
      isAuthenticated = False,
      authenticationInProgress = False,
      keycloak = None,
      localStorage = None,
      toasts = [],
      console = [],
      trace = []\<rparr>"

text \<open>
  What the parser hands to \<^verbatim>\<open>complete\<close> for the content
  \<^verbatim>\<open>accessionVersion<TAB>SampleID<TAB>other\<close>, \<^verbatim>\<open>X.2\<close>: the row with the one field
  the line has, and the error for a line with too few fields.
\<close>

definition malformed_results :: parse_results where
  "malformed_results =
     \<lparr>data = [[(''accessionVersion'', ''X.2'')]],
      errors = [\<lparr>error_type = ''FieldMismatch'', error_code = ''TooFewFields''\<rparr>]\<rparr>"

section \<open>The words of the claims\<close>






section \<open>Strings\<close>

lemma toLowerCase_char_i:
  "toLowerCase_char c = CHR ''i'' \<longleftrightarrow> c = CHR ''i'' \<or> c = CHR ''I''"
  by (auto simp add: toLowerCase_char_def split: if_splits)

lemma toLowerCase_char_d:
  "toLowerCase_char c = CHR ''d'' \<longleftrightarrow> c = CHR ''d'' \<or> c = CHR ''D''"
  by (auto simp add: toLowerCase_char_def split: if_splits)

lemma toLowerCase_id: "toLowerCase h = ''id'' \<longleftrightarrow> h \<in> {''id'', ''Id'', ''iD'', ''ID''}"
  by (auto simp add: toLowerCase_def toLowerCase_char_i toLowerCase_char_d)


lemma join_Cons: "join sep (x # ys) = (if ys = [] then x else x @ sep @ join sep ys)"
  by (cases ys) simp_all

lemma join_first:
  "xs \<noteq> [] \<Longrightarrow> hd xs = c # cs \<Longrightarrow> \<exists>t. join sep xs = c # t"
  by (cases xs) (auto simp add: join_Cons)

section \<open>The upload row\<close>

text \<open>
  What the callback does to one row, case by case. The first three lemmas are the three
  cases of the id rule; the fourth is the row that has a column named
  \<^verbatim>\<open>hasOwnProperty\<close> and not both source fields.
\<close>

lemma uploadRow_both:
  assumes "map_of (props (h ! row)) ''accessionVersion'' = Some a" "a \<noteq> []"
    and "map_of (props (h ! row)) ''SampleID'' = Some b" "b \<noteq> []"
  shows "uploadRow h row =
           (h @ [\<lparr>props = AList.update ''id'' (a @ ''|'' @ b) (props (h ! row)),
                   vue_hasOwnProperty = (map_of (props (h ! row)) ''hasOwnProperty'' \<noteq> None)\<rparr>],
            Inr (length h))"
  using assms by (simp add: uploadRow_def spread_def getProp_def setProp_def)

lemma uploadRow_keep:
  assumes "\<not> (truthy (map_of (props (h ! row)) ''accessionVersion'')
              \<and> truthy (map_of (props (h ! row)) ''SampleID''))"
    and "map_of (props (h ! row)) ''hasOwnProperty'' = None"
    and "map_of (props (h ! row)) ''id'' = Some v"
  shows "uploadRow h row = (h @ [raw_object (props (h ! row))], Inr (length h))"
  using assms
  by (auto simp add: uploadRow_def spread_def getProp_def setProp_def hasOwnProperty_def
      raw_object_def)

lemma uploadRow_default:
  assumes "\<not> (truthy (map_of (props (h ! row)) ''accessionVersion'')
              \<and> truthy (map_of (props (h ! row)) ''SampleID''))"
    and "map_of (props (h ! row)) ''hasOwnProperty'' = None"
    and "map_of (props (h ! row)) ''id'' = None"
  shows "uploadRow h row =
           (h @ [raw_object (AList.update ''id'' [] (props (h ! row)))], Inr (length h))"
  using assms
  by (auto simp add: uploadRow_def spread_def getProp_def setProp_def hasOwnProperty_def
      raw_object_def)

lemma uploadRow_shadowed:
  assumes "\<not> (truthy (map_of (props (h ! row)) ''accessionVersion'')
              \<and> truthy (map_of (props (h ! row)) ''SampleID''))"
    and "map_of (props (h ! row)) ''hasOwnProperty'' = Some f"
  shows "uploadRow h row =
           (h @ [\<lparr>props = props (h ! row), vue_hasOwnProperty = True\<rparr>], Inl RangeError)"
  using assms
  by (auto simp add: uploadRow_def spread_def getProp_def setProp_def hasOwnProperty_def)

text \<open>The store only grows: the callback never writes to an object that was there.\<close>

lemma uploadRow_grows: "\<exists>ys. fst (uploadRow h a) = h @ ys"
  by (auto simp add: uploadRow_def spread_def setProp_def hasOwnProperty_def Let_def
      list_update_append split: sum.splits)

lemma map_uploadRow_grows: "\<exists>ys. fst (map_uploadRow h as) = h @ ys"
proof (induction as arbitrary: h)
  case Nil
  then show ?case by simp
next
  case (Cons a as)
  obtain ys where 1: "fst (uploadRow h a) = h @ ys"
    using uploadRow_grows by blast
  obtain zs where 2: "fst (map_uploadRow (h @ ys) as) = (h @ ys) @ zs"
    using Cons.IH by blast
  show ?case
    using 1 2
    by (cases "uploadRow h a"; cases "map_uploadRow (h @ ys) as") (auto split: sum.splits)
qed

section \<open>What the handlers leave alone\<close>

lemma toast_add_fields [simp]:
  "store (toast_add a b c s) = store s"
  "tableData (toast_add a b c s) = tableData s"
  "allColumns (toast_add a b c s) = allColumns s"
  "selectedColumns (toast_add a b c s) = selectedColumns s"
  "metadataUrl (toast_add a b c s) = metadataUrl s"
  "localStorage (toast_add a b c s) = localStorage s"
  "trace (toast_add a b c s) = trace s"
  "keycloak (toast_add a b c s) = keycloak s"
  by (simp_all add: toast_add_def)

lemma console_log_fields [simp]:
  "store (console_log m s) = store s"
  "tableData (console_log m s) = tableData s"
  "allColumns (console_log m s) = allColumns s"
  "selectedColumns (console_log m s) = selectedColumns s"
  "metadataUrl (console_log m s) = metadataUrl s"
  "localStorage (console_log m s) = localStorage s"
  "trace (console_log m s) = trace s"
  "toasts (console_log m s) = toasts s"
  "keycloak (console_log m s) = keycloak s"
  by (simp_all add: console_log_def)

lemma request_fields [simp]:
  "store (request e s) = store s"
  "tableData (request e s) = tableData s"
  "allColumns (request e s) = allColumns s"
  "selectedColumns (request e s) = selectedColumns s"
  "metadataUrl (request e s) = metadataUrl s"
  "localStorage (request e s) = localStorage s"
  "toasts (request e s) = toasts s"
  "keycloak (request e s) = keycloak s"
  by (simp_all add: request_def)

lemma initializeAuthentication_table:
  "store (initializeAuthentication q w s) = store s \<and>
   tableData (initializeAuthentication q w s) = tableData s"
  by (simp add: initializeAuthentication_def Let_def split: option.splits bool.splits)

lemma validateAndRefreshToken_table:
  "store (snd (validateAndRefreshToken w s)) = store s \<and>
   tableData (snd (validateAndRefreshToken w s)) = tableData s"
  by (simp add: validateAndRefreshToken_def Let_def split: option.splits)

lemma ensureAuthenticated_table:
  "store (snd (ensureAuthenticated q w s)) = store s \<and>
   tableData (snd (ensureAuthenticated q w s)) = tableData s"
  by (simp add: ensureAuthenticated_def authentication_failed_def Let_def
      initializeAuthentication_table validateAndRefreshToken_table split: option.splits)

lemma upload_try_table:
  "tableData (fst (upload_try r org f w s)) = tableData s \<and>
   (\<exists>ys. store (fst (upload_try r org f w s)) = store s @ ys)"
proof -
  obtain ys where ys: "fst (map_uploadRow (store s) (tableData s)) = store s @ ys"
    using map_uploadRow_grows by blast
  show ?thesis
    using ys
    by (cases "map_uploadRow (store s) (tableData s)")
       (auto simp add: upload_try_def Let_def split: option.splits response.splits sum.splits)
qed

lemma uploadMetadata_table:
  "tableData (uploadMetadata q w s) = tableData s \<and>
   (\<exists>ys. store (uploadMetadata q w s) = store s @ ys)"
proof (cases "ensureAuthenticated q w s")
  case (Pair ok s1)
  have s1: "store s1 = store s" "tableData s1 = tableData s"
    using ensureAuthenticated_table [of q w s] Pair by simp_all
  show ?thesis
    using upload_try_table [of "template (q ''return-url'')" "template (q ''organism'')"
        "template (q ''input-fasta'')" w s1] s1 Pair
    by (cases "upload_try (template (q ''return-url'')) (template (q ''organism''))
        (template (q ''input-fasta'')) w s1")
       (auto simp add: uploadMetadata_def Let_def split: option.splits bool.splits)
qed

lemma rows_append:
  assumes "valid_table s" and "tableData s' = tableData s" and "store s' = store s @ ys"
  shows "rows s' = rows s"
  using assms by (auto simp add: rows_def valid_table_def list_all_iff nth_append)

lemma rows_alloc:
  "map (\<lambda>a. props ((h @ map raw_object rs) ! a)) [length h ..< length h + length rs] = rs"
  by (rule nth_equalityI) (simp_all add: nth_append raw_object_def)

lemma initializeAuthentication_snapshot:
  "snapshot (initializeAuthentication q w s) = snapshot s"
  by (simp add: snapshot_def rows_def initializeAuthentication_def Let_def
      split: option.splits bool.splits)

lemma initializeAuthentication_loads:
  "filter is_load (trace (initializeAuthentication q w s)) = filter is_load (trace s)"
  by (simp add: initializeAuthentication_def Let_def request_def toast_add_def console_log_def
      split: option.splits bool.splits)

section \<open>The scenario, evaluated\<close>

lemma scenario_state_fields:
  "keycloak scenario_state = Some \<lparr>authenticated = True, token = Some ''tok''\<rparr>"
  "trace scenario_state = []"
  "toasts scenario_state = []"
  "isAuthenticated scenario_state"
  by (simp_all add: scenario_state_def)

lemma scenario_env_fields:
  "kc_updateToken scenario_env = Some True"
  "kc_refreshed scenario_env = \<lparr>authenticated = True, token = Some ''tok2''\<rparr>"
  "groups_fetch scenario_env = Response True (Some (JArr [JObj [(''groupId'', JNum 7)]]))"
  "fasta_fetch scenario_env = Response True ''>X.1''"
  "upload_fetch scenario_env = Response True ()"
  by (simp_all add: scenario_env_def)

lemma scenario_params_fields:
  "hasAuthParams scenario_params"
  "scenario_params ''return-url'' = Some ''https://api.example/''"
  "scenario_params ''organism'' = Some ''flu''"
  "scenario_params ''input-fasta'' = Some ''https://files.example/seq.fasta''"
  "scenario_params ''input-metadata'' = None"
  by (simp_all add: scenario_params_def hasAuthParams_def)

lemma scenario_valid: "valid_table scenario_state"
  by (simp add: valid_table_def scenario_state_def)

lemma scenario_rows:
  "rows scenario_state = [[(''accessionVersion'', ''X.1''), (''SampleID'', ''S1''), (''other'', ''v'')]]"
  by (simp add: rows_def scenario_state_def raw_object_def)

lemma scenario_wf: "wf_rows scenario_state"
  by (simp add: wf_rows_def scenario_rows)

lemma scenario_snapshot:
  "snapshot scenario_state =
     (''https://files.example/meta.tsv'',
      [[(''accessionVersion'', ''X.1''), (''SampleID'', ''S1''), (''other'', ''v'')]],
      [\<lparr>field = ''accessionVersion'', header = ''accessionVersion''\<rparr>,
       \<lparr>field = ''SampleID'', header = ''SampleID''\<rparr>,
       \<lparr>field = ''other'', header = ''other''\<rparr>],
      [''accessionVersion'', ''SampleID'', ''other''])"
  by (simp add: snapshot_def scenario_rows) (simp add: scenario_state_def)

lemma scenario_map_uploadRow:
  "map_uploadRow (store scenario_state) (tableData scenario_state)
   = ([raw_object [(''accessionVersion'', ''X.1''), (''SampleID'', ''S1''), (''other'', ''v'')],
       raw_object [(''accessionVersion'', ''X.1''), (''SampleID'', ''S1''), (''other'', ''v''),
                   (''id'', ''X.1|S1'')]], Inr [1])"
  by (simp add: scenario_state_def uploadRow_def spread_def getProp_def setProp_def raw_object_def)

lemma scenario_headers:
  "headersForUpload (allColumns scenario_state) = [''id'', ''accessionVersion'', ''SampleID'', ''other'']"
  by (simp add: scenario_state_def headersForUpload_def toLowerCase_id)

lemma scenario_groupId: "groups0_groupId (JArr [JObj [(''groupId'', JNum 7)]]) = Inr (JNum 7)"
  by (simp add: groups0_groupId_def)

lemma scenario_url:
  "revisionUrl ''https://api.example/'' ''flu'' (JNum 7)
     = Inr ''https://api.example/flu/revise?groupId=7&dataUseTermsType=OPEN''"
  by (simp add: revisionUrl_def show_int_def show_nat.simps)

lemma scenario_upload_trace:
  "trace (uploadMetadata scenario_params scenario_env scenario_state)
   = [Keycloak_updateToken 30,
      Fetch_get ''https://api.example/user/groups'' (Some ''Bearer tok2''),
      Fetch_get ''https://files.example/seq.fasta'' None,
      Fetch_post ''https://api.example/flu/revise?groupId=7&dataUseTermsType=OPEN'' ''Bearer tok2''
        \<lparr>metadataFile =
           ([raw_object [(''accessionVersion'', ''X.1''), (''SampleID'', ''S1''), (''other'', ''v''),
                         (''id'', ''X.1|S1'')]],
            [''id'', ''accessionVersion'', ''SampleID'', ''other'']),
         sequenceFile = ''>X.1'', description = ''metadataFile''\<rparr>]"
  by (simp add: uploadMetadata_def ensureAuthenticated_def validateAndRefreshToken_def
      upload_try_def scenario_state_fields scenario_env_fields scenario_params_fields
      scenario_map_uploadRow scenario_headers scenario_groupId scenario_url
      request_def toast_add_def Let_def)

lemma shadow_rows: "rows shadow_state = [[(''hasOwnProperty'', ''x''), (''SampleID'', ''S1'')]]"
  by (simp add: rows_def shadow_state_def raw_object_def)

lemma shadow_wf: "wf_rows shadow_state"
  by (simp add: wf_rows_def shadow_rows)

section \<open>Printing numbers and values\<close>










section \<open>Reading back what was written\<close>

lemma hex_value_digit: "k < 16 \<Longrightarrow> hex_value (hex_digit k) = Some k"
proof -
  assume "k < 16"
  then have "k = 0 \<or> k = 1 \<or> k = 2 \<or> k = 3 \<or> k = 4 \<or> k = 5 \<or> k = 6 \<or> k = 7 \<or> k = 8 \<or> k = 9
      \<or> k = 10 \<or> k = 11 \<or> k = 12 \<or> k = 13 \<or> k = 14 \<or> k = 15"
    by arith
  then show ?thesis
    by (elim disjE) (simp_all add: hex_value_def hex_digit_def)
qed

lemma code_unit_control:
  assumes "of_char c < (32::nat)"
  shows "code_unit (CHR ''0'') (CHR ''0'') (hex_digit (of_char c div 16))
           (hex_digit (of_char c mod 16)) = Some c"
proof -
  have hi: "hex_value (hex_digit (of_char c div 16)) = Some (of_char c div 16)"
    using assms by (intro hex_value_digit) simp
  have lo: "hex_value (hex_digit (of_char c mod 16)) = Some (of_char c mod 16)"
    by (intro hex_value_digit) simp
  have zero: "hex_value (CHR ''0'') = Some 0"
    by (simp add: hex_value_def)
  have "char_of (16 * (of_char c div 16) + of_char c mod 16 :: nat) = c"
    by simp
  then show ?thesis by (simp add: code_unit_def hi lo zero)
qed

lemma parse_chars_literal:
  "c \<noteq> CHR 0x22 \<Longrightarrow> c \<noteq> CHR 0x5C \<Longrightarrow> \<not> of_char c < (32::nat) \<Longrightarrow>
   parse_chars (c # cs) = map_option (\<lambda>(s, r). (c # s, r)) (parse_chars cs)"
  by simp

lemma parse_chars_escape:
  "unescape e = Some d \<Longrightarrow> e \<noteq> CHR ''u'' \<Longrightarrow>
   parse_chars (CHR 0x5C # e # cs) = map_option (\<lambda>(s, r). (d # s, r)) (parse_chars cs)"
  by simp

lemma parse_chars_code_unit:
  "code_unit h1 h2 h3 h4 = Some d \<Longrightarrow>
   parse_chars (CHR 0x5C # CHR ''u'' # h1 # h2 # h3 # h4 # cs)
     = map_option (\<lambda>(s, r). (d # s, r)) (parse_chars cs)"
  by simp

lemma parse_chars_closing: "parse_chars (CHR 0x22 # cs) = Some ([], cs)"
  by simp

declare parse_chars.simps [simp del]

lemma quote_char_cases:
  obtains (esc) e where "quote_char c = [CHR 0x5C, e]" "unescape e = Some c" "e \<noteq> CHR ''u''"
  | (ctl) "of_char c < (32::nat)"
      "quote_char c = [CHR 0x5C, CHR ''u'', CHR ''0'', CHR ''0'',
            hex_digit (of_char c div 16), hex_digit (of_char c mod 16)]"
  | (lit) "quote_char c = [c]" "c \<noteq> CHR 0x22" "c \<noteq> CHR 0x5C" "\<not> of_char c < (32::nat)"
proof -
  consider "c = CHR 0x22" | "c = CHR 0x5C" | "c = CHR 0x08" | "c = CHR 0x0C" | "c = CHR 0x0A"
    | "c = CHR 0x0D" | "c = CHR 0x09"
    | "c \<noteq> CHR 0x22" "c \<noteq> CHR 0x5C" "c \<noteq> CHR 0x08" "c \<noteq> CHR 0x0C" "c \<noteq> CHR 0x0A"
      "c \<noteq> CHR 0x0D" "c \<noteq> CHR 0x09"
    by blast
  then show ?thesis
  proof cases
    case 1
    then show ?thesis
      by (intro esc [of "CHR 0x22"]) (simp_all add: quote_char_def unescape_def)
  next
    case 2
    then show ?thesis
      by (intro esc [of "CHR 0x5C"]) (simp_all add: quote_char_def unescape_def)
  next
    case 3
    then show ?thesis
      by (intro esc [of "CHR ''b''"]) (simp_all add: quote_char_def unescape_def)
  next
    case 4
    then show ?thesis
      by (intro esc [of "CHR ''f''"]) (simp_all add: quote_char_def unescape_def)
  next
    case 5
    then show ?thesis
      by (intro esc [of "CHR ''n''"]) (simp_all add: quote_char_def unescape_def)
  next
    case 6
    then show ?thesis
      by (intro esc [of "CHR ''r''"]) (simp_all add: quote_char_def unescape_def)
  next
    case 7
    then show ?thesis
      by (intro esc [of "CHR ''t''"]) (simp_all add: quote_char_def unescape_def)
  next
    case 8
    show ?thesis
    proof (cases "of_char c < (32::nat)")
      case True
      with 8 show ?thesis by (intro ctl) (simp_all add: quote_char_def)
    next
      case False
      with 8 show ?thesis by (intro lit) (simp_all add: quote_char_def)
    qed
  qed
qed

lemma parse_chars_quote_char:
  "parse_chars (quote_char c @ cs) = map_option (\<lambda>(s, r). (c # s, r)) (parse_chars cs)"
proof (cases c rule: quote_char_cases)
  case (esc e)
  then show ?thesis by (simp add: parse_chars_escape)
next
  case ctl
  then show ?thesis by (simp add: parse_chars_code_unit code_unit_control)
next
  case lit
  then show ?thesis by (simp add: parse_chars_literal)
qed

lemma parse_chars_quoted:
  "parse_chars (concat (map quote_char s) @ CHR 0x22 # rest) = Some (s, rest)"
proof (induction s)
  case Nil
  show ?case by (simp add: parse_chars_closing)
next
  case (Cons c s)
  then show ?case by (simp add: parse_chars_quote_char)
qed

lemma strip_prefix_append [simp]: "strip_prefix p (p @ cs) = Some cs"
  by (induction p) simp_all

lemma stringify_first:
  "plain v \<Longrightarrow>
   \<exists>c cs. JSON_stringify v = c # cs \<and> c \<noteq> CHR '']'' \<and> c \<noteq> CHR ''}'' \<and> c \<noteq> CHR '',''"
  by (cases v) (auto simp add: quote_def)

lemma set_members_distinct_aux:
  "distinct (map fst (acc @ kvs)) \<Longrightarrow>
   foldl (\<lambda>obj (k, v). AList.update k v obj) acc kvs = acc @ kvs"
proof (induction kvs arbitrary: acc)
  case Nil
  then show ?case by simp
next
  case (Cons kv kvs)
  obtain k v where kv: "kv = (k, v)" by (cases kv)
  have "k \<notin> fst ` set acc" using Cons.prems kv by auto
  then have u: "AList.update k v acc = acc @ [(k, v)]"
    by (induction acc) auto
  show ?case using Cons.IH [of "acc @ [(k, v)]"] Cons.prems kv u by simp
qed

lemma set_members_distinct: "distinct (map fst kvs) \<Longrightarrow> set_members kvs = kvs"
  using set_members_distinct_aux [of "[]" kvs] by (simp add: set_members_def)

lemma parse_value_string:
  "parse_value (Suc n) (quote s @ rest) = Some (JStr s, rest)"
  by (simp add: quote_def parse_chars_quoted)

text \<open>
  The elements of an array and the members of an object, given that each value in them
  is read back by \<open>parse_value\<close> with a bound no less than the length of its text.
\<close>

lemma parse_elements_join:
  assumes IH: "\<And>x n rest. x \<in> set vs \<Longrightarrow> length (JSON_stringify x) \<le> n \<Longrightarrow>
                  parse_value n (JSON_stringify x @ rest) = Some (x, rest)"
    and "vs \<noteq> []"
    and "length (join '','' (map JSON_stringify vs)) < n"
  shows "parse_elements n (join '','' (map JSON_stringify vs) @ CHR '']'' # rest) = Some (vs, rest)"
  using assms
proof (induction vs arbitrary: n)
  case Nil
  then show ?case by simp
next
  case (Cons v vs)
  obtain m where n: "n = Suc m" using Cons.prems(3) by (cases n) auto
  show ?case
  proof (cases "vs = []")
    case True
    have "parse_value m (JSON_stringify v @ CHR '']'' # rest) = Some (v, CHR '']'' # rest)"
      using Cons.prems(1) [of v m] Cons.prems(3) n True by simp
    then show ?thesis using n True by simp
  next
    case False
    have len: "length (JSON_stringify v) \<le> m" "length (join '','' (map JSON_stringify vs)) < m"
      using Cons.prems(3) n False by (simp_all add: join_Cons)
    have 1: "parse_value m (JSON_stringify v @ CHR '','' # join '','' (map JSON_stringify vs) @ CHR '']'' # rest)
           = Some (v, CHR '','' # join '','' (map JSON_stringify vs) @ CHR '']'' # rest)"
      using Cons.prems(1) [of v m] len by simp
    have IHp: "\<And>x n rest. x \<in> set vs \<Longrightarrow> length (JSON_stringify x) \<le> n \<Longrightarrow>
                  parse_value n (JSON_stringify x @ rest) = Some (x, rest)"
      using Cons.prems(1) by (meson list.set_intros(2))
    have 2: "parse_elements m (join '','' (map JSON_stringify vs) @ CHR '']'' # rest) = Some (vs, rest)"
      using Cons.IH [OF IHp False len(2)] .
    show ?thesis using n False 1 2 by (simp add: join_Cons)
  qed
qed

lemma parse_members_join:
  assumes IH: "\<And>k x n rest. (k, x) \<in> set kvs \<Longrightarrow> length (JSON_stringify x) \<le> n \<Longrightarrow>
                  parse_value n (JSON_stringify x @ rest) = Some (x, rest)"
    and "kvs \<noteq> []"
    and "length (join '','' (map (\<lambda>(k, v). quote k @ '':'' @ JSON_stringify v) kvs)) < n"
  shows "parse_members n (join '','' (map (\<lambda>(k, v). quote k @ '':'' @ JSON_stringify v) kvs)
                            @ CHR ''}'' # rest)
           = Some (kvs, rest)"
  using assms
proof (induction kvs arbitrary: n)
  case Nil
  then show ?case by simp
next
  case (Cons kv kvs)
  obtain k v where kv: "kv = (k, v)" by (cases kv)
  obtain m where n: "n = Suc m" using Cons.prems(3) by (cases n) auto
  have key: "\<And>tl. strip_prefix [CHR 0x22] (quote k @ tl) = Some (concat (map quote_char k) @ CHR 0x22 # tl)"
    by (simp add: quote_def)
  let ?M = "\<lambda>(k, v). quote k @ '':'' @ JSON_stringify v"
  show ?case
  proof (cases "kvs = []")
    case True
    have "parse_value m (JSON_stringify v @ CHR ''}'' # rest) = Some (v, CHR ''}'' # rest)"
      using Cons.prems(1) [of k v m] Cons.prems(3) n True kv by simp
    then show ?thesis using n True kv key by (simp add: parse_chars_quoted)
  next
    case False
    have len: "length (JSON_stringify v) \<le> m" "length (join '','' (map ?M kvs)) < m"
      using Cons.prems(3) n False kv by (simp_all add: join_Cons)
    have 1: "parse_value m (JSON_stringify v @ CHR '','' # join '','' (map ?M kvs) @ CHR ''}'' # rest)
           = Some (v, CHR '','' # join '','' (map ?M kvs) @ CHR ''}'' # rest)"
      using Cons.prems(1) [of k v m] len kv by simp
    have IHp: "\<And>k x n rest. (k, x) \<in> set kvs \<Longrightarrow> length (JSON_stringify x) \<le> n \<Longrightarrow>
              parse_value n (JSON_stringify x @ rest) = Some (x, rest)"
      using Cons.prems(1) by (meson list.set_intros(2))
    have 2: "parse_members m (join '','' (map ?M kvs) @ CHR ''}'' # rest) = Some (kvs, rest)"
      using Cons.IH [OF IHp False len(2)] .
    show ?thesis using n False kv key 1 2 by (simp add: parse_chars_quoted join_Cons)
  qed
qed

lemma map_stringify_plain:
  "list_all plain vs \<Longrightarrow>
   map (\<lambda>v. if v = JUndefined then ''null'' else JSON_stringify v) vs = map JSON_stringify vs"
  by (induction vs) auto

lemma filter_defined_plain:
  "list_all (\<lambda>(k, v). plain v) kvs \<Longrightarrow> filter (\<lambda>(k, v). v \<noteq> JUndefined) kvs = kvs"
  by (induction kvs) auto

lemma parse_value_stringify:
  "plain v \<Longrightarrow> length (JSON_stringify v) \<le> n \<Longrightarrow>
   parse_value n (JSON_stringify v @ rest) = Some (v, rest)"
proof (induction v arbitrary: n rest)
  case JUndefined
  then show ?case by simp
next
  case JNull
  then obtain m where "n = Suc m" by (cases n) auto
  then show ?case by simp
next
  case (JBool b)
  then obtain m where "n = Suc m" by (cases n; cases b) auto
  then show ?case by (cases b) simp_all
next
  case (JNum i)
  then show ?case by simp
next
  case (JStr s)
  then obtain m where "n = Suc m" by (cases n) (auto simp add: quote_def)
  then show ?case by (simp add: parse_value_string)
next
  case (JArr vs)
  obtain m where n: "n = Suc m" using JArr.prems(2) by (cases n) auto
  have pl: "list_all plain vs" using JArr.prems(1) by simp
  have shape: "JSON_stringify (JArr vs) = CHR ''['' # join '','' (map JSON_stringify vs) @ '']''"
    unfolding JSON_stringify.simps map_stringify_plain [OF pl] by simp
  show ?case
  proof (cases vs)
    case Nil
    then show ?thesis using n by simp
  next
    case (Cons v ws)
    have "plain v" using pl Cons by simp
    then obtain c cs where c: "JSON_stringify v = c # cs" "c \<noteq> CHR '']''"
      using stringify_first by blast
    then obtain t where t: "join '','' (map JSON_stringify vs) = c # t"
      using join_first [of "map JSON_stringify vs" c cs "'',''"] Cons by auto
    have IH: "\<And>x n rest. x \<in> set vs \<Longrightarrow> length (JSON_stringify x) \<le> n \<Longrightarrow>
                  parse_value n (JSON_stringify x @ rest) = Some (x, rest)"
      using JArr.IH pl by (auto simp add: list_all_iff)
    have el: "parse_elements m (join '','' (map JSON_stringify vs) @ CHR '']'' # rest) = Some (vs, rest)"
      using parse_elements_join [where vs = vs and n = m and rest = rest, OF IH]
        Cons JArr.prems(2) n shape by simp
    have np: "strip_prefix '']'' (join '','' (map JSON_stringify vs) @ CHR '']'' # rest) = None"
      using t c by simp
    show ?thesis using n shape el np by simp
  qed
next
  case (JObj kvs)
  obtain m where n: "n = Suc m" using JObj.prems(2) by (cases n) auto
  let ?M = "\<lambda>(k, v). quote k @ '':'' @ JSON_stringify v"
  have pl: "list_all (\<lambda>(k, v). plain v) kvs" and d: "distinct (map fst kvs)"
    using JObj.prems(1) by simp_all
  have shape: "JSON_stringify (JObj kvs) = CHR ''{'' # join '','' (map ?M kvs) @ ''}''"
    unfolding JSON_stringify.simps filter_defined_plain [OF pl] by simp
  show ?case
  proof (cases kvs)
    case Nil
    then show ?thesis using n by simp
  next
    case (Cons kv ws)
    obtain k v where kv: "kv = (k, v)" by (cases kv)
    obtain t where t: "join '','' (map ?M kvs) = CHR 0x22 # t"
      using join_first [of "map ?M kvs" "CHR 0x22" _ "'',''"] Cons kv by (auto simp add: quote_def)
    have IH: "\<And>k x n rest. (k, x) \<in> set kvs \<Longrightarrow> length (JSON_stringify x) \<le> n \<Longrightarrow>
                  parse_value n (JSON_stringify x @ rest) = Some (x, rest)"
      using JObj.IH pl by (fastforce simp add: list_all_iff)
    have el: "parse_members m (join '','' (map ?M kvs) @ CHR ''}'' # rest) = Some (kvs, rest)"
      using parse_members_join [where kvs = kvs and n = m and rest = rest, OF IH]
        Cons JObj.prems(2) n shape by simp
    have np: "strip_prefix ''}'' (join '','' (map ?M kvs) @ CHR ''}'' # rest) = None"
      using t by simp
    show ?thesis using n shape el np set_members_distinct [OF d] by simp
  qed
qed

lemma JSON_parse_stringify: "plain v \<Longrightarrow> JSON_parse (JSON_stringify v) = Some v"
  using parse_value_stringify [of v "length (JSON_stringify v)" "[]"]
  by (simp add: JSON_parse_def)

lemma those_map_inverse:
  "(\<And>x. x \<in> set xs \<Longrightarrow> f (g x) = Some x) \<Longrightarrow> those (map (\<lambda>x. f (g x)) xs) = Some xs"
  by (induction xs) simp_all

lemma as_row_json: "as_row (row_json r) = Some (stringified_props r)"
  using those_map_inverse [of "stringified_props r"
      "\<lambda>(k, v). map_option (Pair k) (as_string v)" "\<lambda>(k, v). (k, JStr v)"]
  by (simp add: row_json_def comp_def case_prod_beta)

lemma as_column_json: "as_column (column_json c) = Some c"
  by (simp add: column_json_def)

lemma as_array_map:
  assumes "\<And>x. f (g x) = Some x"
  shows "as_array f (JArr (map g xs)) = Some xs"
  using those_map_inverse [of xs f g] assms by (simp add: comp_def)

lemma plain_row_json: "distinct (map fst r) \<Longrightarrow> plain (row_json r)"
  by (simp add: row_json_def stringified_props_def list_all_iff comp_def case_prod_beta
      distinct_map_filter)

lemma stringified_props_id:
  "map_of r ''hasOwnProperty'' = None \<Longrightarrow> stringified_props r = r"
  by (induction r) (auto simp add: stringified_props_def)

lemma plain_state_json: "wf_rows s \<Longrightarrow> plain (state_json s)"
  by (auto simp add: state_json_def wf_rows_def list_all_iff plain_row_json column_json_def)

lemma as_rows_json: "as_array as_row (JArr (map row_json rs)) = Some (map stringified_props rs)"
  by (induction rs) (simp_all add: as_row_json)

lemma as_snapshot_state_json:
  "as_snapshot (state_json s)
     = Some (metadataUrl s, map stringified_props (rows s), allColumns s, selectedColumns s)"
  using as_rows_json [of "rows s"]
    as_array_map [of as_column column_json "allColumns s"]
    as_array_map [of as_string JStr "selectedColumns s"]
  by (simp add: state_json_def as_column_json)

lemma stringified_rows_id:
  "list_all (\<lambda>r. map_of r ''hasOwnProperty'' = None) rs \<Longrightarrow> map stringified_props rs = rs"
  by (induction rs) (simp_all add: stringified_props_id)

lemma stringify_state_json_truthy: "truthy (Some (JSON_stringify (state_json s)))"
  by (simp add: state_json_def)

lemma snapshot_alloc:
  "snapshot (s\<lparr>store := store s @ map raw_object td,
               tableData := [length (store s) ..< length (store s) + length td],
               allColumns := ac, selectedColumns := sc, metadataUrl := url\<rparr>) = (url, td, ac, sc)"
  using rows_alloc [of "store s" td] by (simp add: snapshot_def rows_def)

lemma onMounted_restore_snapshot:
  assumes "JSON_parse saved = Some v" and "as_snapshot v = Some S"
  shows "\<exists>t. onMounted_restore saved s = Inr t \<and> snapshot t = S \<and> trace t = trace s"
proof -
  obtain url td ac sc where S: "S = (url, td, ac, sc)" by (cases S)
  show ?thesis
    using assms S snapshot_alloc [where s = s and td = td and ac = ac and sc = sc and url = url]
    by (simp add: onMounted_restore_def alloc_rows_def)
qed

text \<open>
  The watch callback followed by \<^verbatim>\<open>onMounted\<close>: what comes back is the snapshot with,
  of every row, the properties that reach the text; the same snapshot when no row has a
  column named \<^verbatim>\<open>hasOwnProperty\<close>.
\<close>

lemma persist_then_restore_props:
  assumes "wf_rows s" and "localStorage t = localStorage (watch_callback s)"
  shows "\<exists>t'. onMounted q w t = Inr t' \<and>
              snapshot t' = (metadataUrl s, map stringified_props (rows s),
                             allColumns s, selectedColumns s)"
proof -
  have st: "localStorage t = Some (JSON_stringify (state_json s))"
    using assms(2) by (simp add: watch_callback_def)
  have p: "JSON_parse (JSON_stringify (state_json s)) = Some (state_json s)"
    using JSON_parse_stringify [OF plain_state_json [OF assms(1)]] .
  obtain t1 where t1: "onMounted_restore (JSON_stringify (state_json s)) t = Inr t1"
      "snapshot t1 = (metadataUrl s, map stringified_props (rows s),
                      allColumns s, selectedColumns s)"
    using onMounted_restore_snapshot [OF p as_snapshot_state_json, of t] by blast
  have tr: "truthy (localStorage t)"
    unfolding st by (rule stringify_state_json_truthy)
  show ?thesis
    using t1 st tr by (simp add: onMounted_def initializeAuthentication_snapshot)
qed

lemma persist_then_restore_same:
  assumes "wf_rows s" and "list_all (\<lambda>r. map_of r ''hasOwnProperty'' = None) (rows s)"
    and "localStorage t = localStorage (watch_callback s)"
  shows "\<exists>t'. onMounted q w t = Inr t' \<and> snapshot t' = snapshot s"
  using persist_then_restore_props [OF assms(1) assms(3), of q w]
    stringified_rows_id [OF assms(2)]
  by (simp add: snapshot_def)

lemma scenario_as_snapshot:
  "as_snapshot (state_json scenario_state) = Some (snapshot scenario_state)"
  using as_snapshot_state_json [of scenario_state]
  by (simp add: snapshot_def scenario_rows stringified_props_def)

section \<open>A load that ends in a callback\<close>

text \<open>
  The callback \<^verbatim>\<open>error\<close> adds the error notification and leaves the table as it was.
  The callback \<^verbatim>\<open>complete\<close> does the same whatever \<^verbatim>\<open>results.errors\<close> holds.
\<close>

lemma loadMetadata_failure_frame:
  assumes "metadataUrl s \<noteq> []"
  shows "toasts (loadMetadata_run Load_failed s) =
           toasts s @ [\<lparr>severity = Error, summary = ''Error'',
                        detail = ''Failed to load or parse metadata'', life = 3000\<rparr>] \<and>
         tableData (loadMetadata_run Load_failed s) = tableData s \<and>
         store (loadMetadata_run Load_failed s) = store s \<and>
         rows (loadMetadata_run Load_failed s) = rows s \<and>
         allColumns (loadMetadata_run Load_failed s) = allColumns s \<and>
         selectedColumns (loadMetadata_run Load_failed s) = selectedColumns s \<and>
         metadataUrl (loadMetadata_run Load_failed s) = metadataUrl s \<and>
         localStorage (loadMetadata_run Load_failed s) = localStorage s"
  using assms
  by (simp add: loadMetadata_run_def loadMetadata_error_def loadMetadata_def rows_def
      toast_add_def console_log_def request_def)

lemma loadMetadata_errors_unread:
  "loadMetadata_run (Load_complete results) s
     = loadMetadata_run (Load_complete (results\<lparr>errors := []\<rparr>)) s"
  by (simp add: loadMetadata_run_def)

section \<open>The claims\<close>

text \<open>
  C1. The upload row-building step gives the copy of a row the id
  \<open>accessionVersion|SampleID\<close> when both fields are present and non-empty, leaves an id
  the row has unchanged when one of them is missing or empty, and sets the id to the empty
  string when the row has none. The lemmas \<open>uploadRow_both\<close>, \<open>uploadRow_keep\<close> and
  \<open>uploadRow_default\<close> show this for every row that has no column named
  \<^verbatim>\<open>hasOwnProperty\<close>. For a row that has such a column and not both source fields the
  copy holds Vue's function under that name, the call of it never returns and the
  callback throws a RangeError (\<open>uploadRow_shadowed\<close>): no copy with an id is produced.
  Here the row \<^verbatim>\<open>{hasOwnProperty: "x", SampleID: "S1"}\<close>, which the claim gives the id
  \<^verbatim>\<open>""\<close>.
\<close>

theorem uploadRow_hasOwnProperty_column:
  "uploadRow [raw_object [(''hasOwnProperty'', ''x''), (''SampleID'', ''S1'')]] 0
     = ([raw_object [(''hasOwnProperty'', ''x''), (''SampleID'', ''S1'')],
         \<lparr>props = [(''hasOwnProperty'', ''x''), (''SampleID'', ''S1'')],
          vue_hasOwnProperty = True\<rparr>], Inl RangeError)"
  by (simp add: uploadRow_def spread_def getProp_def setProp_def hasOwnProperty_def
      raw_object_def)

text \<open>
  C2. The upload header is the string \<open>id\<close> followed by the original fields, in their
  order, without the fields whose lower-case form is \<open>id\<close> and without the fields equal
  to \<open>submissionId\<close>. The fields whose lower-case form is \<open>id\<close> are \<open>id\<close>, \<open>Id\<close>,
  \<open>iD\<close> and \<open>ID\<close>, so the header is also the list written with these four names. For
  the fields \<open>foo, id, submissionId, bar\<close> it is \<open>id, foo, bar\<close>.
\<close>

theorem headersForUpload_contract:
  "headersForUpload cols =
     ''id'' # filter (\<lambda>h. toLowerCase h \<noteq> ''id'' \<and> h \<noteq> ''submissionId'') (map field cols)
   \<and> headersForUpload cols =
     ''id'' # filter (\<lambda>h. h \<notin> {''id'', ''Id'', ''iD'', ''ID''} \<and> h \<noteq> ''submissionId'')
               (map field cols)
   \<and> headersForUpload
         (map (\<lambda>f. \<lparr>field = f, header = f\<rparr>) [''foo'', ''id'', ''submissionId'', ''bar''])
       = [''id'', ''foo'', ''bar'']"
  by (simp add: headersForUpload_def toLowerCase_id)




text \<open>
  C4. When the \<open>return-url\<close>, \<open>organism\<close> or \<open>input-fasta\<close> parameter is absent, the
  upload adds the error notification and does nothing else: the state it returns is the
  state it was given with that one notification more, so the requests (token, network),
  the table, the stored snapshot and the authentication state are as they were.
\<close>

theorem uploadMetadata_missing_parameter:
  assumes "q ''return-url'' = None \<or> q ''organism'' = None \<or> q ''input-fasta'' = None"
  shows "uploadMetadata q w s =
           s\<lparr>toasts := toasts s @ [\<lparr>severity = Error, summary = ''Error'',
                 detail = ''Missing URL parameters for upload'', life = 3000\<rparr>]\<rparr> \<and>
         trace (uploadMetadata q w s) = trace s \<and>
         keycloak (uploadMetadata q w s) = keycloak s \<and>
         localStorage (uploadMetadata q w s) = localStorage s \<and>
         snapshot (uploadMetadata q w s) = snapshot s"
  using assms by (auto simp add: uploadMetadata_def toast_add_def snapshot_def rows_def)

theorem uploadMetadata_missing_parameter_witness:
  "uploadMetadata (scenario_params(''input-fasta'' := None)) scenario_env scenario_state =
     scenario_state\<lparr>toasts := [\<lparr>severity = Error, summary = ''Error'',
        detail = ''Missing URL parameters for upload'', life = 3000\<rparr>]\<rparr>
   \<and> trace (uploadMetadata (scenario_params(''input-fasta'' := None)) scenario_env scenario_state) = []"
  using uploadMetadata_missing_parameter
    [of "scenario_params(''input-fasta'' := None)" scenario_env scenario_state]
  by (simp add: scenario_state_fields)

text \<open>
  C5. Persisting a snapshot and then restoring it at startup does not give back the same
  snapshot when a row has a column named \<^verbatim>\<open>hasOwnProperty\<close>: the cell of that column
  never reaches the stored text, so the restored row is without it. Here the snapshot
  whose one row is \<^verbatim>\<open>{hasOwnProperty: "x", SampleID: "S1"}\<close> comes back with the row
  \<^verbatim>\<open>{SampleID: "S1"}\<close>; the source URL, the column definitions (the column
  \<^verbatim>\<open>hasOwnProperty\<close> among them) and the selection come back as they were. For the
  snapshots whose rows have no such column the restored snapshot is the persisted one
  (\<open>persist_then_restore_same\<close>).
\<close>

theorem persist_then_restore_hasOwnProperty_column:
  "snapshot shadow_state =
     (''https://files.example/meta.tsv'',
      [[(''hasOwnProperty'', ''x''), (''SampleID'', ''S1'')]],
      [\<lparr>field = ''hasOwnProperty'', header = ''hasOwnProperty''\<rparr>,
       \<lparr>field = ''SampleID'', header = ''SampleID''\<rparr>],
      [''hasOwnProperty'', ''SampleID'']) \<and>
   (\<exists>t'. onMounted scenario_params scenario_env
            (initial_state (localStorage (watch_callback shadow_state))) = Inr t'
        \<and> snapshot t' =
            (''https://files.example/meta.tsv'',
             [[(''SampleID'', ''S1'')]],
             [\<lparr>field = ''hasOwnProperty'', header = ''hasOwnProperty''\<rparr>,
              \<lparr>field = ''SampleID'', header = ''SampleID''\<rparr>],
             [''hasOwnProperty'', ''SampleID'']))"
proof -
  have ls: "localStorage (initial_state (localStorage (watch_callback shadow_state)))
              = localStorage (watch_callback shadow_state)"
    by (simp add: initial_state_def)
  have f: "metadataUrl shadow_state = ''https://files.example/meta.tsv''"
      "allColumns shadow_state = [\<lparr>field = ''hasOwnProperty'', header = ''hasOwnProperty''\<rparr>,
                                  \<lparr>field = ''SampleID'', header = ''SampleID''\<rparr>]"
      "selectedColumns shadow_state = [''hasOwnProperty'', ''SampleID'']"
    by (simp_all add: shadow_state_def)
  show ?thesis
    using persist_then_restore_props [OF shadow_wf ls, of scenario_params scenario_env]
    by (simp add: snapshot_def shadow_rows f stringified_props_def)
qed

text \<open>
  C6. At startup a persisted snapshot replaces the source URL, the row records, the column
  definitions and the visible-column selection, and no table load is requested, whatever
  the \<open>input-metadata\<close> parameter says. With nothing persisted, a present
  \<open>input-metadata\<close> becomes the source URL and one load of it is requested; with that
  parameter absent too, nothing is loaded and the snapshot stays as it is.
\<close>

theorem onMounted_prefers_snapshot:
  "(localStorage s = Some saved \<and> saved \<noteq> [] \<and> JSON_parse saved = Some v \<and> as_snapshot v = Some S \<longrightarrow>
      (\<exists>t. onMounted q w s = Inr t \<and> snapshot t = S
            \<and> filter is_load (trace t) = filter is_load (trace s)))
   \<and> (localStorage s = None \<and> q ''input-metadata'' = Some url \<and> url \<noteq> [] \<longrightarrow>
      (\<exists>t. onMounted q w s = Inr t \<and> metadataUrl t = url
            \<and> filter is_load (trace t) = filter is_load (trace s) @ [Papa_parse url]))
   \<and> (localStorage s = None \<and> q ''input-metadata'' = None \<longrightarrow>
      (\<exists>t. onMounted q w s = Inr t \<and> snapshot t = snapshot s
            \<and> filter is_load (trace t) = filter is_load (trace s)))"
proof (intro conjI impI)
  assume a: "localStorage s = Some saved \<and> saved \<noteq> [] \<and> JSON_parse saved = Some v \<and> as_snapshot v = Some S"
  then obtain t1 where t1: "onMounted_restore saved s = Inr t1" "snapshot t1 = S" "trace t1 = trace s"
    using onMounted_restore_snapshot [of saved v S s] by blast
  show "\<exists>t. onMounted q w s = Inr t \<and> snapshot t = S
            \<and> filter is_load (trace t) = filter is_load (trace s)"
    using a t1
    by (simp add: onMounted_def initializeAuthentication_snapshot initializeAuthentication_loads)
next
  assume a: "localStorage s = None \<and> q ''input-metadata'' = Some url \<and> url \<noteq> []"
  then show "\<exists>t. onMounted q w s = Inr t \<and> metadataUrl t = url
            \<and> filter is_load (trace t) = filter is_load (trace s) @ [Papa_parse url]"
    using initializeAuthentication_snapshot [of q w "onMounted_input q s"]
    by (simp add: onMounted_def onMounted_input_def loadMetadata_def request_def
        initializeAuthentication_loads snapshot_def)
next
  assume a: "localStorage s = None \<and> q ''input-metadata'' = None"
  then show "\<exists>t. onMounted q w s = Inr t \<and> snapshot t = snapshot s
            \<and> filter is_load (trace t) = filter is_load (trace s)"
    by (simp add: onMounted_def onMounted_input_def initializeAuthentication_snapshot
        initializeAuthentication_loads)
qed

theorem onMounted_prefers_snapshot_witness:
  "(\<exists>t. onMounted (scenario_params(''input-metadata'' \<mapsto> ''https://files.example/other.tsv''))
            scenario_env (initial_state (Some (JSON_stringify (state_json scenario_state)))) = Inr t
        \<and> snapshot t = snapshot scenario_state \<and> filter is_load (trace t) = [])
   \<and> (\<exists>t. onMounted (scenario_params(''input-metadata'' \<mapsto> ''https://files.example/other.tsv''))
            scenario_env (initial_state None) = Inr t
        \<and> metadataUrl t = ''https://files.example/other.tsv''
        \<and> filter is_load (trace t) = [Papa_parse ''https://files.example/other.tsv''])
   \<and> (\<exists>t. onMounted scenario_params scenario_env (initial_state None) = Inr t
        \<and> snapshot t = snapshot (initial_state None) \<and> filter is_load (trace t) = [])"
proof -
  let ?q = "scenario_params(''input-metadata'' \<mapsto> ''https://files.example/other.tsv'')"
  let ?saved = "JSON_stringify (state_json scenario_state)"
  have p: "JSON_parse ?saved = Some (state_json scenario_state)"
    using JSON_parse_stringify [OF plain_state_json [OF scenario_wf]] .
  have ne: "?saved \<noteq> []"
    using stringify_state_json_truthy [of scenario_state] by simp
  have 1: "\<exists>t. onMounted ?q scenario_env (initial_state (Some ?saved)) = Inr t
        \<and> snapshot t = snapshot scenario_state \<and> filter is_load (trace t) = []"
    using onMounted_prefers_snapshot [where s = "initial_state (Some ?saved)" and saved = ?saved
        and v = "state_json scenario_state" and S = "snapshot scenario_state" and q = ?q
        and w = scenario_env]
      p ne scenario_as_snapshot
    by (simp add: initial_state_def)
  have 2: "\<exists>t. onMounted ?q scenario_env (initial_state None) = Inr t
        \<and> metadataUrl t = ''https://files.example/other.tsv''
        \<and> filter is_load (trace t) = [Papa_parse ''https://files.example/other.tsv'']"
    using onMounted_prefers_snapshot [where s = "initial_state None" and q = ?q
        and w = scenario_env and url = "''https://files.example/other.tsv''"]
    by (simp add: initial_state_def)
  have 3: "\<exists>t. onMounted scenario_params scenario_env (initial_state None) = Inr t
        \<and> snapshot t = snapshot (initial_state None) \<and> filter is_load (trace t) = []"
    using onMounted_prefers_snapshot [where s = "initial_state None" and q = scenario_params
        and w = scenario_env]
    by (simp add: initial_state_def scenario_params_fields)
  show ?thesis using 1 2 3 by blast
qed

text \<open>
  C7. A load whose content is malformed does not report an error and does not leave the
  table as it was. The parser hands such content to the callback \<^verbatim>\<open>complete\<close>, with
  the problems in \<^verbatim>\<open>results.errors\<close>, which the callback never reads
  (\<open>loadMetadata_errors_unread\<close>): the rows it could read replace the table, the columns
  become the keys of the first of them, and the notification says the metadata was loaded
  successfully. Here the scenario's table of one row and three columns, reloaded from a
  file whose one line has too few fields. Only a load that ends in the callback
  \<^verbatim>\<open>error\<close> reports an error and leaves the table alone (\<open>loadMetadata_failure_frame\<close>).
\<close>

theorem loadMetadata_malformed_content:
  "errors malformed_results \<noteq> [] \<and>
   rows scenario_state
     = [[(''accessionVersion'', ''X.1''), (''SampleID'', ''S1''), (''other'', ''v'')]] \<and>
   rows (loadMetadata_run (Load_complete malformed_results) scenario_state)
     = [[(''accessionVersion'', ''X.2'')]] \<and>
   allColumns (loadMetadata_run (Load_complete malformed_results) scenario_state)
     = [\<lparr>field = ''accessionVersion'', header = ''accessionVersion''\<rparr>] \<and>
   selectedColumns (loadMetadata_run (Load_complete malformed_results) scenario_state)
     = [''accessionVersion''] \<and>
   toasts (loadMetadata_run (Load_complete malformed_results) scenario_state)
     = [\<lparr>severity = Success, summary = ''Success'',
         detail = ''Metadata loaded successfully'', life = 3000\<rparr>]"
proof -
  have u: "metadataUrl scenario_state = ''https://files.example/meta.tsv''"
    by (simp add: scenario_state_def)
  have d: "data malformed_results = [[(''accessionVersion'', ''X.2'')]]"
      "errors malformed_results \<noteq> []"
    by (simp_all add: malformed_results_def)
  have r: "rows (loadMetadata_complete [[(''accessionVersion'', ''X.2'')]]
                   (loadMetadata scenario_state)) = [[(''accessionVersion'', ''X.2'')]]"
    using rows_alloc [of "store (loadMetadata scenario_state)" "[[(''accessionVersion'', ''X.2'')]]"]
    by (simp add: loadMetadata_complete_def alloc_rows_def rows_def toast_add_def Let_def)
  have c: "allColumns (loadMetadata_complete [[(''accessionVersion'', ''X.2'')]]
                         (loadMetadata scenario_state))
             = [\<lparr>field = ''accessionVersion'', header = ''accessionVersion''\<rparr>]"
      "selectedColumns (loadMetadata_complete [[(''accessionVersion'', ''X.2'')]]
                         (loadMetadata scenario_state)) = [''accessionVersion'']"
      "toasts (loadMetadata_complete [[(''accessionVersion'', ''X.2'')]]
                 (loadMetadata scenario_state))
         = [\<lparr>severity = Success, summary = ''Success'',
             detail = ''Metadata loaded successfully'', life = 3000\<rparr>]"
    by (simp_all add: loadMetadata_complete_def alloc_rows_def toast_add_def Let_def
        loadMetadata_def u request_def scenario_state_fields)
  show ?thesis
    using r c d scenario_rows by (simp add: loadMetadata_run_def u)
qed

text \<open>
  C8. Clearing removes the stored snapshot and changes nothing in memory: source URL,
  addresses, row objects, row records, column definitions and selection are as before.
  So in the scenario the table still has its row while the storage is empty.
\<close>

theorem clearLocalStorage_frame:
  "localStorage (clearLocalStorage s) = None \<and>
   metadataUrl (clearLocalStorage s) = metadataUrl s \<and>
   tableData (clearLocalStorage s) = tableData s \<and>
   store (clearLocalStorage s) = store s \<and>
   rows (clearLocalStorage s) = rows s \<and>
   allColumns (clearLocalStorage s) = allColumns s \<and>
   selectedColumns (clearLocalStorage s) = selectedColumns s \<and>
   rows (clearLocalStorage (watch_callback scenario_state))
     = [[(''accessionVersion'', ''X.1''), (''SampleID'', ''S1''), (''other'', ''v'')]] \<and>
   localStorage (watch_callback scenario_state) \<noteq> None"
  using scenario_rows
  by (simp add: clearLocalStorage_def rows_def toast_add_def watch_callback_def)

text \<open>
  C9. The upload never changes the rows of the table, whether it succeeds or fails: in a
  state whose table refers to objects of the store, the addresses are the same after the
  upload, every object that was in the store is unchanged (the copies are new objects
  after them), and so the row records are the same; no id appears in them.
\<close>

theorem uploadMetadata_keeps_rows:
  assumes "valid_table s"
  shows "tableData (uploadMetadata q w s) = tableData s \<and>
         rows (uploadMetadata q w s) = rows s \<and>
         take (length (store s)) (store (uploadMetadata q w s)) = store s"
proof -
  obtain ys where t: "tableData (uploadMetadata q w s) = tableData s"
    and h: "store (uploadMetadata q w s) = store s @ ys"
    using uploadMetadata_table by blast
  have "rows (uploadMetadata q w s) = rows s"
    using assms t h by (rule rows_append)
  then show ?thesis using t h by simp
qed

theorem uploadMetadata_keeps_rows_witness:
  "valid_table scenario_state \<and>
   rows (uploadMetadata scenario_params scenario_env scenario_state)
     = [[(''accessionVersion'', ''X.1''), (''SampleID'', ''S1''), (''other'', ''v'')]] \<and>
   trace (uploadMetadata scenario_params scenario_env scenario_state)
     = [Keycloak_updateToken 30,
        Fetch_get ''https://api.example/user/groups'' (Some ''Bearer tok2''),
        Fetch_get ''https://files.example/seq.fasta'' None,
        Fetch_post ''https://api.example/flu/revise?groupId=7&dataUseTermsType=OPEN'' ''Bearer tok2''
          \<lparr>metadataFile =
             ([raw_object [(''accessionVersion'', ''X.1''), (''SampleID'', ''S1''), (''other'', ''v''),
                           (''id'', ''X.1|S1'')]],
              [''id'', ''accessionVersion'', ''SampleID'', ''other'']),
           sequenceFile = ''>X.1'', description = ''metadataFile''\<rparr>]"
proof -
  have r: "rows (uploadMetadata scenario_params scenario_env scenario_state) = rows scenario_state"
    using uploadMetadata_keeps_rows [OF scenario_valid, of scenario_params scenario_env] by blast
  show ?thesis
    unfolding r scenario_rows scenario_upload_trace using scenario_valid by simp
qed

text \<open>
  C10. A load that completes with no rows empties the table and keeps the column
  definitions and the selection; a load that completes with rows makes the column
  definitions from the keys of the first row, each with the key as field and as header,
  and selects all of them.
\<close>

theorem loadMetadata_complete_columns:
  "tableData (loadMetadata_complete [] s) = [] \<and>
   rows (loadMetadata_complete [] s) = [] \<and>
   allColumns (loadMetadata_complete [] s) = allColumns s \<and>
   selectedColumns (loadMetadata_complete [] s) = selectedColumns s \<and>
   rows (loadMetadata_complete (row0 # others) s) = row0 # others \<and>
   allColumns (loadMetadata_complete (row0 # others) s)
     = map (\<lambda>f. \<lparr>field = f, header = f\<rparr>) (map fst row0) \<and>
   selectedColumns (loadMetadata_complete (row0 # others) s) = map fst row0"
  using rows_alloc [of "store s" "row0 # others"]
  by (simp add: loadMetadata_complete_def alloc_rows_def rows_def toast_add_def Let_def)

end
